theory Spec2Isabelle
  imports Complex_Main
begin

section \<open>JavaScript values\<close>

text \<open>
  A JavaScript number is NaN, one of the two infinities, or a finite value. Finite values
  are taken as reals: rounding and overflow of IEEE doubles are not modelled, and the two
  zeros are identified (\<open>-0 === 0\<close> is true in JavaScript as well).
\<close>

datatype jsnum = NaN | NInf | Fin real | PInf

text \<open>\<open>a === b\<close> on numbers: NaN is equal to nothing, not even to itself.\<close>

fun num_eq :: "jsnum \<Rightarrow> jsnum \<Rightarrow> bool" where
  "num_eq NaN _ = False"
| "num_eq _ NaN = False"
| "num_eq a b = (a = b)"

text \<open>\<open>a < b\<close> on numbers: false as soon as one side is NaN.\<close>

fun num_lt :: "jsnum \<Rightarrow> jsnum \<Rightarrow> bool" where
  "num_lt NaN _ = False"
| "num_lt _ NaN = False"
| "num_lt PInf _ = False"
| "num_lt _ NInf = False"
| "num_lt NInf _ = True"
| "num_lt _ PInf = True"
| "num_lt (Fin a) (Fin b) = (a < b)"

definition num_gt :: "jsnum \<Rightarrow> jsnum \<Rightarrow> bool" where
  "num_gt a b = num_lt b a"

definition isNaN :: "jsnum \<Rightarrow> bool" where
  "isNaN a = (a = NaN)"

fun isFinite :: "jsnum \<Rightarrow> bool" where
  "isFinite (Fin _) = True"
| "isFinite _ = False"

text \<open>Unary minus, \<open>+\<close> and \<open>-\<close>; \<open>Infinity - Infinity\<close> is NaN.\<close>

fun num_neg :: "jsnum \<Rightarrow> jsnum" where
  "num_neg NaN = NaN"
| "num_neg NInf = PInf"
| "num_neg PInf = NInf"
| "num_neg (Fin a) = Fin (- a)"

fun num_add :: "jsnum \<Rightarrow> jsnum \<Rightarrow> jsnum" where
  "num_add NaN _ = NaN"
| "num_add _ NaN = NaN"
| "num_add PInf NInf = NaN"
| "num_add NInf PInf = NaN"
| "num_add PInf _ = PInf"
| "num_add _ PInf = PInf"
| "num_add NInf _ = NInf"
| "num_add _ NInf = NInf"
| "num_add (Fin a) (Fin b) = Fin (a + b)"

definition num_sub :: "jsnum \<Rightarrow> jsnum \<Rightarrow> jsnum" where
  "num_sub a b = num_add a (num_neg b)"

text \<open>\<open>Math.min\<close> and \<open>Math.max\<close> of two numbers: NaN as soon as one argument is NaN.\<close>

fun num_min :: "jsnum \<Rightarrow> jsnum \<Rightarrow> jsnum" where
  "num_min NaN _ = NaN"
| "num_min _ NaN = NaN"
| "num_min a b = (if num_lt b a then b else a)"

fun num_max :: "jsnum \<Rightarrow> jsnum \<Rightarrow> jsnum" where
  "num_max NaN _ = NaN"
| "num_max _ NaN = NaN"
| "num_max a b = (if num_lt a b then b else a)"

text \<open>\<open>a <= b\<close>; false as soon as one side is NaN.\<close>

definition num_le :: "jsnum \<Rightarrow> jsnum \<Rightarrow> bool" where
  "num_le a b = (num_lt a b \<or> num_eq a b)"

text \<open>
  \<open>*\<close> and \<open>/\<close>. Zero times an infinity is NaN; a finite number over zero is an
  infinity of its sign (the zero divisor is taken as \<open>+0\<close>), zero over zero is NaN.
\<close>

fun num_mul :: "jsnum \<Rightarrow> jsnum \<Rightarrow> jsnum" where
  "num_mul NaN _ = NaN"
| "num_mul _ NaN = NaN"
| "num_mul (Fin a) (Fin b) = Fin (a * b)"
| "num_mul (Fin a) PInf = (if a = 0 then NaN else if 0 < a then PInf else NInf)"
| "num_mul (Fin a) NInf = (if a = 0 then NaN else if 0 < a then NInf else PInf)"
| "num_mul PInf (Fin b) = (if b = 0 then NaN else if 0 < b then PInf else NInf)"
| "num_mul NInf (Fin b) = (if b = 0 then NaN else if 0 < b then NInf else PInf)"
| "num_mul PInf PInf = PInf"
| "num_mul PInf NInf = NInf"
| "num_mul NInf PInf = NInf"
| "num_mul NInf NInf = PInf"

fun num_div :: "jsnum \<Rightarrow> jsnum \<Rightarrow> jsnum" where
  "num_div NaN _ = NaN"
| "num_div _ NaN = NaN"
| "num_div (Fin a) (Fin b) =
     (if b = 0 then (if a = 0 then NaN else if 0 < a then PInf else NInf) else Fin (a / b))"
| "num_div (Fin a) PInf = Fin 0"
| "num_div (Fin a) NInf = Fin 0"
| "num_div PInf (Fin b) = (if 0 \<le> b then PInf else NInf)"
| "num_div NInf (Fin b) = (if 0 \<le> b then NInf else PInf)"
| "num_div PInf PInf = NaN"
| "num_div PInf NInf = NaN"
| "num_div NInf PInf = NaN"
| "num_div NInf NInf = NaN"

text \<open>A \<open>go.Point\<close>; \<open>isReal\<close> holds when both coordinates are finite.\<close>

datatype point = Point (point_x: jsnum) (point_y: jsnum)

definition isReal :: "point \<Rightarrow> bool" where
  "isReal p = (isFinite (point_x p) \<and> isFinite (point_y p))"

text \<open>Objects of the diagram (nodes, ports, links) are known by their identity.\<close>

type_synonym oid = nat

text \<open>
  The values a setter can be handed at run time. Objects other than a \<open>go.Spot\<close> are
  known by their identity only; a Spot carries its four components.
\<close>

datatype spot = Spot (spot_x: jsnum) (spot_y: jsnum) (spot_offsetX: jsnum) (spot_offsetY: jsnum)

datatype jsval =
    Undefined
  | Null
  | Boolean bool
  | Number jsnum
  | Str string
  | SpotV spot
  | Obj nat

text \<open>\<open>typeof val === 'number'\<close> and \<open>val instanceof go.Spot\<close>.\<close>

fun is_number :: "jsval \<Rightarrow> bool" where
  "is_number (Number _) = True"
| "is_number _ = False"

fun is_Spot :: "jsval \<Rightarrow> bool" where
  "is_Spot (SpotV _) = True"
| "is_Spot _ = False"

text \<open>
  An exception: \<open>throw new Error(msg)\<close>, or the TypeError of a call on null.
\<close>

datatype error = Error string | TypeError string

text \<open>
  How a method that mutates its object ends: normally, or by a throw; in both cases with
  the object as the method left it.
\<close>

datatype 's completion = Normal 's | Throw error 's

fun final_state :: "'s completion \<Rightarrow> 's" where
  "final_state (Normal s) = s"
| "final_state (Throw _ s) = s"

fun threw :: "'s completion \<Rightarrow> bool" where
  "threw (Normal _) = False"
| "threw (Throw _ _) = True"


section \<open>DimensioningLink\<close>

text \<open>
  The fields of a DimensioningLink, with what the calls into the library leave behind:
  \<open>raiseChangedEvent\<close> appends to the log of Changed events (property name, old value,
  new value), \<open>invalidateRoute\<close> clears \<open>dl_routeValid\<close>, \<open>clearPoints\<close> and
  \<open>addPointAt\<close> empty and extend the route, \<open>updateTargetBindings\<close> is counted.
\<close>

record DimensioningLink =
  dl_direction :: jsnum
  dl_extension :: jsnum
  dl_inset :: jsnum
  dl_gap :: jsnum
  dl_fromNode :: "oid option"
  dl_fromPort :: "oid option"
  dl_toNode :: "oid option"
  dl_toPort :: "oid option"
  dl_points :: "point list"
  dl_changed :: "(string \<times> jsnum \<times> jsnum) list"
  dl_routeValid :: bool
  dl_bindingsUpdated :: nat

definition raiseChangedEvent :: "string \<Rightarrow> jsnum \<Rightarrow> jsnum \<Rightarrow> DimensioningLink \<Rightarrow> DimensioningLink" where
  "raiseChangedEvent name old val l = l\<lparr>dl_changed := dl_changed l @ [(name, old, val)]\<rparr>"

definition invalidateRoute :: "DimensioningLink \<Rightarrow> DimensioningLink" where
  "invalidateRoute l = l\<lparr>dl_routeValid := False\<rparr>"

definition clearPoints :: "DimensioningLink \<Rightarrow> DimensioningLink" where
  "clearPoints l = l\<lparr>dl_points := []\<rparr>"

definition addPointAt :: "jsnum \<Rightarrow> jsnum \<Rightarrow> DimensioningLink \<Rightarrow> DimensioningLink" where
  "addPointAt x y l = l\<lparr>dl_points := dl_points l @ [Point x y]\<rparr>"

definition updateTargetBindings :: "DimensioningLink \<Rightarrow> DimensioningLink" where
  "updateTargetBindings l = l\<lparr>dl_bindingsUpdated := Suc (dl_bindingsUpdated l)\<rparr>"

text \<open>The setter of \<open>direction\<close>, called with a number.\<close>

definition set_direction :: "jsnum \<Rightarrow> DimensioningLink \<Rightarrow> DimensioningLink completion" where
  "set_direction val l =
     (let old = dl_direction l in
      if isNaN val \<or> num_eq val (Fin 0) \<or> num_eq val (Fin 90) \<or> num_eq val (Fin 180)
         \<or> num_eq val (Fin 270)
      then Normal (invalidateRoute (raiseChangedEvent ''direction'' old val (l\<lparr>dl_direction := val\<rparr>)))
      else Throw (Error ''DimensioningLink: invalid new direction: '') l)"

text \<open>
  What \<open>computePoints\<close> asks of the library, as it answers for this link in the current
  diagram: \<open>Link.computeSpot\<close>, \<open>Link.getLinkPoint\<close>, \<open>Point.directionPoint\<close> and
  \<open>Point.rotate\<close>.
\<close>

record link_lib =
  computeSpot :: "bool \<Rightarrow> spot"
  getLinkPoint :: "oid \<Rightarrow> oid \<Rightarrow> spot \<Rightarrow> bool \<Rightarrow> bool \<Rightarrow> oid \<Rightarrow> oid \<Rightarrow> point"
  directionPoint :: "point \<Rightarrow> point \<Rightarrow> jsnum"
  rotate :: "point \<Rightarrow> jsnum \<Rightarrow> point"

text \<open>A run of \<open>addPointAt\<close> calls, in the order given.\<close>

definition addPointsAt :: "(jsnum \<times> jsnum) list \<Rightarrow> DimensioningLink \<Rightarrow> DimensioningLink" where
  "addPointsAt ps l = foldl (\<lambda>l' (x, y). addPointAt x y l') l ps"

text \<open>
  The part of \<open>computePoints\<close> after \<open>clearPoints\<close>: the six points of the chosen
  direction. A direction that is none of NaN, 0, 90, 180, 270 adds no point.
\<close>

definition dimension_points :: "link_lib \<Rightarrow> point \<Rightarrow> point \<Rightarrow> DimensioningLink \<Rightarrow> DimensioningLink" where
  "dimension_points lib frompoint topoint l =
     (let ang = dl_direction l in
      if isNaN ang then
        (let ang = directionPoint lib frompoint topoint;
             p = rotate lib (Point (dl_extension l) (Fin 0)) (num_add ang (Fin 90));
             q = rotate lib (Point (num_sub (dl_extension l) (dl_inset l)) (Fin 0)) (num_add ang (Fin 90));
             g = rotate lib (Point (dl_gap l) (Fin 0)) (num_add ang (Fin 90))
         in addPointsAt
              [(num_add (point_x frompoint) (point_x g), num_add (point_y frompoint) (point_y g)),
               (num_add (point_x frompoint) (point_x p), num_add (point_y frompoint) (point_y p)),
               (num_add (point_x frompoint) (point_x q), num_add (point_y frompoint) (point_y q)),
               (num_add (point_x topoint) (point_x q), num_add (point_y topoint) (point_y q)),
               (num_add (point_x topoint) (point_x p), num_add (point_y topoint) (point_y p)),
               (num_add (point_x topoint) (point_x g), num_add (point_y topoint) (point_y g))] l)
      else if num_eq ang (Fin 0) \<or> num_eq ang (Fin 180) then
        (let (r, s, t0, t1) =
               (if num_eq ang (Fin 0) then
                  (let r = num_sub (num_min (point_y frompoint) (point_y topoint)) (dl_extension l)
                   in (r, num_add r (dl_inset l),
                       num_sub (point_y frompoint) (dl_gap l),
                       num_sub (point_y topoint) (dl_gap l)))
                else
                  (let r = num_add (num_max (point_y frompoint) (point_y topoint)) (dl_extension l)
                   in (r, num_sub r (dl_inset l),
                       num_add (point_y frompoint) (dl_gap l),
                       num_add (point_y topoint) (dl_gap l))))
         in addPointsAt
              [(point_x frompoint, t0),
               (num_add (point_x frompoint) (Fin (1/100)), r),
               (point_x frompoint, s),
               (point_x topoint, s),
               (num_sub (point_x topoint) (Fin (1/100)), r),
               (point_x topoint, t1)] l)
      else if num_eq ang (Fin 90) \<or> num_eq ang (Fin 270) then
        (let (r, s, t0, t1) =
               (if num_eq ang (Fin 90) then
                  (let r = num_add (num_max (point_x frompoint) (point_x topoint)) (dl_extension l)
                   in (r, num_sub r (dl_inset l),
                       num_add (point_x frompoint) (dl_gap l),
                       num_add (point_x topoint) (dl_gap l)))
                else
                  (let r = num_sub (num_min (point_x frompoint) (point_x topoint)) (dl_extension l)
                   in (r, num_add r (dl_inset l),
                       num_sub (point_x frompoint) (dl_gap l),
                       num_sub (point_x topoint) (dl_gap l))))
         in addPointsAt
              [(t0, point_y frompoint),
               (r, num_add (point_y frompoint) (Fin (1/100))),
               (s, point_y frompoint),
               (s, point_y topoint),
               (r, num_sub (point_y topoint) (Fin (1/100))),
               (t1, point_y topoint)] l)
      else l)"

text \<open>\<open>computePoints\<close>: the returned flag and the link as the call leaves it.\<close>

definition computePoints :: "link_lib \<Rightarrow> DimensioningLink \<Rightarrow> bool \<times> DimensioningLink" where
  "computePoints lib l =
     (case dl_fromNode l of None \<Rightarrow> (False, l) | Some fromnode \<Rightarrow>
     (case dl_fromPort l of None \<Rightarrow> (False, l) | Some fromport \<Rightarrow>
     (let fromspot = computeSpot lib True in
     (case dl_toNode l of None \<Rightarrow> (False, l) | Some tonode \<Rightarrow>
     (case dl_toPort l of None \<Rightarrow> (False, l) | Some toport \<Rightarrow>
     (let tospot = computeSpot lib False;
          frompoint = getLinkPoint lib fromnode fromport fromspot True True tonode toport
      in if \<not> isReal frompoint then (False, l)
         else (let topoint = getLinkPoint lib tonode toport tospot False True fromnode fromport
               in if \<not> isReal topoint then (False, l)
                  else (True, updateTargetBindings
                                (dimension_points lib frompoint topoint (clearPoints l))))))))))"

text \<open>A library and a link to run \<open>computePoints\<close> on.\<close>

definition flat_lib :: link_lib where
  "flat_lib =
     \<lparr>computeSpot = (\<lambda>from. Spot (Fin (1/2)) (Fin (1/2)) (Fin 0) (Fin 0)),
      getLinkPoint = (\<lambda>node port sp from ortho othernode otherport.
                        if from then Point (Fin 0) (Fin 0) else Point (Fin 100) (Fin 50)),
      directionPoint = (\<lambda>a b. Fin 0),
      rotate = (\<lambda>p a. p)\<rparr>"

definition default_link :: DimensioningLink where
  "default_link =
     \<lparr>dl_direction = Fin 0, dl_extension = Fin 30, dl_inset = Fin 10, dl_gap = Fin 10,
      dl_fromNode = Some 1, dl_fromPort = Some 1, dl_toNode = Some 2, dl_toPort = Some 2,
      dl_points = [], dl_changed = [], dl_routeValid = True, dl_bindingsUpdated = 0\<rparr>"

section \<open>ZoomSlider\<close>

text \<open>
  The fields of a ZoomSlider. The slider's DOM subtree (the div, its two buttons and the
  range input, with their styles) is one value of type \<open>'d\<close>; \<open>zs_sliderDiv\<close> is
  \<open>None\<close> once \<open>remove\<close> has set \<open>_sliderDiv\<close> to null. \<open>zs_diagramDiv\<close> tells whether
  the diagram has a div.
\<close>

record 'd ZoomSlider =
  zs_size :: jsnum
  zs_buttonSize :: jsnum
  zs_alignment :: spot
  zs_alignmentFocus :: spot
  zs_orientation :: string
  zs_opacity :: jsnum
  zs_initialScale :: jsnum
  zs_diagramDiv :: bool
  zs_sliderDiv :: "'d option"

text \<open>
  What the setters ask of the library and of the DOM: \<open>Spot.equals\<close>, and the style
  assignments made by \<open>resize\<close> (with its \<open>reorient\<close> flag), by \<open>realign\<close> and by the
  setter of \<open>opacity\<close>, each from the values it reads.
\<close>

record 'd slider_lib =
  spot_equals :: "spot \<Rightarrow> jsval \<Rightarrow> bool"
  style_resize :: "bool \<Rightarrow> jsnum \<Rightarrow> jsnum \<Rightarrow> string \<Rightarrow> 'd \<Rightarrow> 'd"
  style_realign :: "jsnum \<Rightarrow> jsnum \<Rightarrow> string \<Rightarrow> spot \<Rightarrow> spot \<Rightarrow> 'd \<Rightarrow> 'd"
  style_opacity :: "jsnum \<Rightarrow> 'd \<Rightarrow> 'd"

definition realign :: "'d slider_lib \<Rightarrow> 'd ZoomSlider \<Rightarrow> 'd ZoomSlider" where
  "realign lib s =
     (case zs_sliderDiv s of
        None \<Rightarrow> s
      | Some d \<Rightarrow>
          if \<not> zs_diagramDiv s then s
          else s\<lparr>zs_sliderDiv :=
                   Some (style_realign lib (zs_size s) (zs_buttonSize s) (zs_orientation s)
                           (zs_alignment s) (zs_alignmentFocus s) d)\<rparr>)"

definition resize :: "'d slider_lib \<Rightarrow> bool \<Rightarrow> 'd ZoomSlider \<Rightarrow> 'd ZoomSlider" where
  "resize lib reorient s =
     (case zs_sliderDiv s of
        None \<Rightarrow> s
      | Some d \<Rightarrow>
          realign lib
            (s\<lparr>zs_sliderDiv :=
                 Some (style_resize lib reorient (zs_size s) (zs_buttonSize s) (zs_orientation s) d)\<rparr>))"

text \<open>\<open>old !== val\<close> for a number \<open>old\<close>, and for a string \<open>old\<close>.\<close>

fun num_differs :: "jsnum \<Rightarrow> jsval \<Rightarrow> bool" where
  "num_differs old (Number n) = (\<not> num_eq old n)"
| "num_differs old _ = True"

fun str_differs :: "string \<Rightarrow> jsval \<Rightarrow> bool" where
  "str_differs old (Str v) = (old \<noteq> v)"
| "str_differs old _ = True"

text \<open>The six setters. \<open>this.resize()\<close> passes no argument: \<open>reorient\<close> is falsy.\<close>

definition set_size :: "'d slider_lib \<Rightarrow> jsval \<Rightarrow> 'd ZoomSlider \<Rightarrow> 'd ZoomSlider completion" where
  "set_size lib val s =
     (let old = zs_size s in
      if num_differs old val then
        (case val of
           Number n \<Rightarrow> Normal (resize lib False (s\<lparr>zs_size := n\<rparr>))
         | _ \<Rightarrow> Throw (Error ''new value for ZoomSlider.size must be a number, not: '') s)
      else Normal s)"

definition set_buttonSize :: "'d slider_lib \<Rightarrow> jsval \<Rightarrow> 'd ZoomSlider \<Rightarrow> 'd ZoomSlider completion" where
  "set_buttonSize lib val s =
     (let old = zs_buttonSize s in
      if num_differs old val then
        (case val of
           Number n \<Rightarrow> Normal (resize lib False (s\<lparr>zs_buttonSize := n\<rparr>))
         | _ \<Rightarrow> Throw (Error ''new value for ZoomSlider.buttonSize must be a number, not: '') s)
      else Normal s)"

definition set_alignment :: "'d slider_lib \<Rightarrow> jsval \<Rightarrow> 'd ZoomSlider \<Rightarrow> 'd ZoomSlider completion" where
  "set_alignment lib val s =
     (let old = zs_alignment s in
      if \<not> spot_equals lib old val then
        (case val of
           SpotV v \<Rightarrow> Normal (realign lib (s\<lparr>zs_alignment := v\<rparr>))
         | _ \<Rightarrow> Throw (Error ''new value for ZoomSlider.alignment must be a Spot, not: '') s)
      else Normal s)"

definition set_alignmentFocus :: "'d slider_lib \<Rightarrow> jsval \<Rightarrow> 'd ZoomSlider \<Rightarrow> 'd ZoomSlider completion" where
  "set_alignmentFocus lib val s =
     (let old = zs_alignmentFocus s in
      if \<not> spot_equals lib old val then
        (case val of
           SpotV v \<Rightarrow> Normal (realign lib (s\<lparr>zs_alignment := v, zs_alignmentFocus := v\<rparr>))
         | _ \<Rightarrow> Throw (Error ''new value for ZoomSlider.alignmentFocus must be a Spot, not: '') s)
      else Normal s)"

definition set_orientation :: "'d slider_lib \<Rightarrow> jsval \<Rightarrow> 'd ZoomSlider \<Rightarrow> 'd ZoomSlider completion" where
  "set_orientation lib val s =
     (if str_differs ''horizontal'' val \<and> str_differs ''vertical'' val
      then Throw (Error ''Orientation must be \"horizontal\" or \"vertical\"'') s
      else
        (let old = zs_orientation s in
         if str_differs old val then
           (case val of
              Str v \<Rightarrow> Normal (resize lib True (s\<lparr>zs_orientation := v\<rparr>))
            | _ \<Rightarrow> Normal s)
         else Normal s))"

definition set_opacity :: "'d slider_lib \<Rightarrow> jsval \<Rightarrow> 'd ZoomSlider \<Rightarrow> 'd ZoomSlider completion" where
  "set_opacity lib val s =
     (let old = zs_opacity s in
      if num_differs old val then
        (case val of
           Number n \<Rightarrow>
             if num_lt n (Fin 0) \<or> num_gt n (Fin 1)
             then Throw (Error ''new value for ZoomSlider.opacity must be a number between 0 and 1 inclusive, not: '') s
             else Normal (case zs_sliderDiv s of
                            None \<Rightarrow> s\<lparr>zs_opacity := n\<rparr>
                          | Some d \<Rightarrow> s\<lparr>zs_opacity := n, zs_sliderDiv := Some (style_opacity lib n d)\<rparr>)
         | _ \<Rightarrow> Throw (Error ''new value for ZoomSlider.opacity must be a number between 0 and 1 inclusive, not: '') s)
      else Normal s)"

text \<open>
  The setters by name of the property, with the two notions of the claims about them:
  \<open>differs\<close>, the test by which a setter decides that the new value is not the current
  one, and \<open>wrong_type\<close>, a value that is not of the kind the property holds.
\<close>

datatype property = size_p | buttonSize_p | alignment_p | alignmentFocus_p | orientation_p | opacity_p

fun assign :: "'d slider_lib \<Rightarrow> property \<Rightarrow> jsval \<Rightarrow> 'd ZoomSlider \<Rightarrow> 'd ZoomSlider completion" where
  "assign lib size_p = set_size lib"
| "assign lib buttonSize_p = set_buttonSize lib"
| "assign lib alignment_p = set_alignment lib"
| "assign lib alignmentFocus_p = set_alignmentFocus lib"
| "assign lib orientation_p = set_orientation lib"
| "assign lib opacity_p = set_opacity lib"

fun differs :: "'d slider_lib \<Rightarrow> property \<Rightarrow> 'd ZoomSlider \<Rightarrow> jsval \<Rightarrow> bool" where
  "differs lib size_p s val = num_differs (zs_size s) val"
| "differs lib buttonSize_p s val = num_differs (zs_buttonSize s) val"
| "differs lib alignment_p s val = (\<not> spot_equals lib (zs_alignment s) val)"
| "differs lib alignmentFocus_p s val = (\<not> spot_equals lib (zs_alignmentFocus s) val)"
| "differs lib orientation_p s val = str_differs (zs_orientation s) val"
| "differs lib opacity_p s val = num_differs (zs_opacity s) val"

text \<open>A number of the closed interval from 0 to 1; NaN and the infinities are none.\<close>

fun in_unit_interval :: "jsnum \<Rightarrow> bool" where
  "in_unit_interval (Fin r) = (0 \<le> r \<and> r \<le> 1)"
| "in_unit_interval _ = False"

fun is_orientation_string :: "jsval \<Rightarrow> bool" where
  "is_orientation_string (Str v) = (v = ''horizontal'' \<or> v = ''vertical'')"
| "is_orientation_string _ = False"

fun is_string :: "jsval \<Rightarrow> bool" where
  "is_string (Str _) = True"
| "is_string _ = False"

fun wrong_type :: "property \<Rightarrow> jsval \<Rightarrow> bool" where
  "wrong_type size_p val = (\<not> is_number val)"
| "wrong_type buttonSize_p val = (\<not> is_number val)"
| "wrong_type alignment_p val = (\<not> is_Spot val)"
| "wrong_type alignmentFocus_p val = (\<not> is_Spot val)"
| "wrong_type orientation_p val = (is_string val \<and> \<not> is_orientation_string val)"
| "wrong_type opacity_p val = (case val of Number n \<Rightarrow> \<not> in_unit_interval n | _ \<Rightarrow> True)"

text \<open>The slider as its constructor leaves it without options, before \<open>init\<close> runs.\<close>

definition BottomRight :: spot where
  "BottomRight = Spot (Fin 1) (Fin 1) (Fin 0) (Fin 0)"

text \<open>A library for a page without styles: \<open>Spot.equals\<close> compares the components.\<close>

definition plain_lib :: "nat slider_lib" where
  "plain_lib =
     \<lparr>spot_equals = (\<lambda>a v. v = SpotV a),
      style_resize = (\<lambda>reorient sz bs orient d. d),
      style_realign = (\<lambda>sz bs orient al af d. d),
      style_opacity = (\<lambda>n d. d)\<rparr>"

definition TopLeft :: spot where
  "TopLeft = Spot (Fin 0) (Fin 0) (Fin 0) (Fin 0)"

definition default_slider :: "nat ZoomSlider" where
  "default_slider =
     \<lparr>zs_size = Fin 125, zs_buttonSize = Fin 25, zs_alignment = BottomRight,
      zs_alignmentFocus = BottomRight, zs_orientation = ''vertical'', zs_opacity = Fin (3/4),
      zs_initialScale = Fin 1, zs_diagramDiv = True, zs_sliderDiv = None\<rparr>"


section \<open>The classes of the repository\<close>

text \<open>
  The seven classes and the \<open>extends\<close> clause of each declaration: \<open>go.Link\<close>,
  \<open>go.Layout\<close>, \<open>go.Tool\<close>, or none.
\<close>

datatype component =
    ZoomSlider_class
  | BalloonLink_class
  | DoubleTreeLayout_class
  | LinkShiftingTool_class
  | ArrangingLayout_class
  | DimensioningLink_class
  | SpiralLayout_class

datatype base_class = go_Link | go_Layout | go_Tool

fun extends :: "component \<Rightarrow> base_class option" where
  "extends ZoomSlider_class = None"
| "extends BalloonLink_class = Some go_Link"
| "extends DoubleTreeLayout_class = Some go_Layout"
| "extends LinkShiftingTool_class = Some go_Tool"
| "extends ArrangingLayout_class = Some go_Layout"
| "extends DimensioningLink_class = Some go_Link"
| "extends SpiralLayout_class = Some go_Layout"

section \<open>Parts and sets of parts\<close>

text \<open>
  A part of a diagram is a \<open>go.Node\<close> (groups included), a \<open>go.Link\<close>, or a plain
  \<open>go.Part\<close>; each is known by its identity.
\<close>

datatype part = Node oid | Link oid | Part oid

fun is_Link :: "part \<Rightarrow> bool" where
  "is_Link (Link _) = True"
| "is_Link _ = False"

text \<open>
  A \<open>go.Set\<close> keeps its elements in the order of their insertion, each once: a list
  where \<open>add\<close> appends what is not there yet.
\<close>

definition Set_has :: "'a \<Rightarrow> 'a list \<Rightarrow> bool" where
  "Set_has x xs = (x \<in> set xs)"

definition Set_add :: "'a \<Rightarrow> 'a list \<Rightarrow> 'a list" where
  "Set_add x xs = (if Set_has x xs then xs else xs @ [x])"

definition Set_addAll :: "'a list \<Rightarrow> 'a list \<Rightarrow> 'a list" where
  "Set_addAll ys xs = fold Set_add ys xs"


section \<open>ArrangingLayout\<close>

text \<open>
  What \<open>splitParts\<close> reads from the parts: \<open>Node.linksConnected.count\<close>,
  \<open>Link.fromNode\<close> and \<open>Link.toNode\<close> (\<open>None\<close> for null).
\<close>

record part_lib =
  linksConnected_count :: "oid \<Rightarrow> nat"
  link_fromNode :: "oid \<Rightarrow> oid option"
  link_toNode :: "oid \<Rightarrow> oid option"

text \<open>The body of the first \<open>coll.each\<close>: every part that is not a Link goes to one side.\<close>

fun split_nonlink ::
  "part_lib \<Rightarrow> (part \<Rightarrow> bool) option \<Rightarrow> part \<Rightarrow> part list \<times> part list \<Rightarrow> part list \<times> part list" where
  "split_nonlink lib pred p (maincoll, sidecoll) =
     (if is_Link p then (maincoll, sidecoll)
      else
        (let main = (case pred of
                       Some f \<Rightarrow> f p
                     | None \<Rightarrow> (case p of
                                   Node n \<Rightarrow> linksConnected_count lib n > 0
                                 | _ \<Rightarrow> is_Link p))
         in if main then (Set_add p maincoll, sidecoll) else (maincoll, Set_add p sidecoll)))"

text \<open>The body of the second \<open>coll.each\<close>: a Link follows its two nodes.\<close>

fun split_link :: "part_lib \<Rightarrow> part \<Rightarrow> part list \<times> part list \<Rightarrow> part list \<times> part list" where
  "split_link lib (Link l) (maincoll, sidecoll) =
     (case link_fromNode lib l of
        None \<Rightarrow> (maincoll, sidecoll)
      | Some f \<Rightarrow>
         (case link_toNode lib l of
            None \<Rightarrow> (maincoll, sidecoll)
          | Some t \<Rightarrow>
              if Set_has (Node f) maincoll \<and> Set_has (Node t) maincoll
              then (Set_add (Link l) maincoll, sidecoll)
              else if Set_has (Node f) sidecoll \<and> Set_has (Node t) sidecoll
              then (maincoll, Set_add (Link l) sidecoll)
              else (maincoll, sidecoll)))"
| "split_link lib _ (maincoll, sidecoll) = (maincoll, sidecoll)"

text \<open>
  \<open>splitParts\<close>, with the filter of the layout (\<open>None\<close> for null): the two collections
  as the call leaves them.
\<close>

definition splitParts ::
  "part_lib \<Rightarrow> (part \<Rightarrow> bool) option \<Rightarrow> part list \<Rightarrow> part list \<Rightarrow> part list \<Rightarrow> part list \<times> part list" where
  "splitParts lib pred coll maincoll sidecoll =
     fold (split_link lib) coll (fold (split_nonlink lib pred) coll (maincoll, sidecoll))"

text \<open>Both ends of the link \<open>l\<close> are set, and are nodes of the collection \<open>c\<close>.\<close>

definition joins :: "part_lib \<Rightarrow> part list \<Rightarrow> oid \<Rightarrow> bool" where
  "joins lib c l = (\<exists>f t. link_fromNode lib l = Some f \<and> link_toNode lib l = Some t
                         \<and> Node f \<in> set c \<and> Node t \<in> set c)"

text \<open>A small diagram: two linked nodes, a lone node, a text part, a dangling link.\<close>

definition small_lib :: part_lib where
  "small_lib =
     \<lparr>linksConnected_count = (\<lambda>n. if n = 1 \<or> n = 2 then 1 else 0),
      link_fromNode = (\<lambda>l. if l = 10 then Some 1 else if l = 11 then Some 3 else None),
      link_toNode = (\<lambda>l. if l = 10 then Some 2 else None)\<rparr>"

definition small_coll :: "part list" where
  "small_coll = [Link 10, Node 1, Node 2, Node 3, Part 4, Link 11]"

section \<open>BalloonLink\<close>

text \<open>
  A \<open>go.Rect\<close> as \<open>makeGeometry\<close> reads it: the values of its getters. A node is read
  through its \<open>actualBounds\<close> and its \<open>margin\<close>.
\<close>

record rect =
  r_x :: jsnum
  r_y :: jsnum
  r_width :: jsnum
  r_height :: jsnum
  r_left :: jsnum
  r_top :: jsnum
  r_right :: jsnum
  r_bottom :: jsnum
  r_centerX :: jsnum
  r_center :: point

record margin =
  m_top :: jsnum
  m_right :: jsnum
  m_bottom :: jsnum
  m_left :: jsnum

record node =
  n_actualBounds :: rect
  n_margin :: margin

text \<open>
  A \<open>go.PathSegment\<close> is a line to a point or an arc (start angle, sweep angle, centre,
  two radii), closed or not; a \<open>go.PathFigure\<close> has a start point and its segments; a
  \<open>go.Geometry\<close> has its figures.
\<close>

datatype shape =
    Line jsnum jsnum
  | Arc jsnum jsnum jsnum jsnum jsnum jsnum

datatype segment = PathSegment (seg_shape: shape) (seg_closed: bool)

record figure =
  fig_startX :: jsnum
  fig_startY :: jsnum
  fig_segments :: "segment list"

datatype geometry = Geometry (figures: "figure list")

text \<open>
  What \<open>makeGeometry\<close> asks of the library: \<open>Rect.copy().addMargin(margin)\<close>,
  \<open>Rect.intersectsRect\<close> and \<open>Geometry.offset\<close>.
\<close>

record geo_lib =
  addMargin :: "rect \<Rightarrow> margin \<Rightarrow> rect"
  intersectsRect :: "rect \<Rightarrow> rect \<Rightarrow> bool"
  offset :: "jsnum \<Rightarrow> jsnum \<Rightarrow> geometry \<Rightarrow> geometry"

text \<open>
  The BalloonLink: its \<open>base\<close>, and of the Link it extends the \<open>corner\<close>, the two nodes
  (\<open>None\<close> for null), the points of the route, the \<open>routeBounds\<close> and the log of the
  Changed events raised (property name, old value, new value).
\<close>

record BalloonLink =
  bl_base :: jsnum
  bl_corner :: jsnum
  bl_fromNode :: "node option"
  bl_toNode :: "node option"
  bl_points :: "point list"
  bl_routeBounds :: rect
  bl_changed :: "(string \<times> jsnum \<times> jsnum) list"

text \<open>The setter of \<open>base\<close>.\<close>

definition set_base :: "jsval \<Rightarrow> BalloonLink \<Rightarrow> BalloonLink completion" where
  "set_base val l =
     (let old = bl_base l in
      if num_differs old val then
        (case val of
           Number n \<Rightarrow>
             Normal (l\<lparr>bl_base := n, bl_changed := bl_changed l @ [(''base'', old, n)]\<rparr>)
         | _ \<Rightarrow> Throw (Error ''BalloonLink.base must be a number'') l)
      else Normal l)"

text \<open>
  The figure under construction with the two variables \<open>prevx\<close> and \<open>prevy\<close>, and the
  three local functions \<open>start\<close>, \<open>point\<close> and \<open>turn\<close> that write them; \<open>turn\<close> reads
  the \<open>corner\<close> computed before.
\<close>

record pen =
  pen_fig :: figure
  prevx :: jsnum
  prevy :: jsnum

definition fig_add :: "shape \<Rightarrow> pen \<Rightarrow> pen" where
  "fig_add sh st =
     st\<lparr>pen_fig := (pen_fig st)\<lparr>fig_segments := fig_segments (pen_fig st) @ [PathSegment sh False]\<rparr>\<rparr>"

definition start :: "jsnum \<Rightarrow> jsnum \<Rightarrow> pen \<Rightarrow> pen" where
  "start x y st =
     st\<lparr>pen_fig := (pen_fig st)\<lparr>fig_startX := x, fig_startY := y\<rparr>, prevx := x, prevy := y\<rparr>"

definition point :: "jsnum \<Rightarrow> jsnum \<Rightarrow> jsnum \<Rightarrow> jsnum \<Rightarrow> pen \<Rightarrow> pen" where
  "point x y v w st = (fig_add (Line v w) (fig_add (Line x y) st))\<lparr>prevx := v, prevy := w\<rparr>"

definition turn :: "jsnum \<Rightarrow> jsnum \<Rightarrow> jsnum \<Rightarrow> pen \<Rightarrow> pen" where
  "turn corner x y st =
     (if num_eq (prevx st) x \<and> num_gt (prevy st) y then
        fig_add (Arc (Fin 180) (Fin 90) (num_add x corner) (num_add y corner) corner corner)
          (fig_add (Line x (num_add y corner)) st)
      else if num_lt (prevx st) x \<and> num_eq (prevy st) y then
        fig_add (Arc (Fin 270) (Fin 90) (num_sub x corner) (num_add y corner) corner corner)
          (fig_add (Line (num_sub x corner) y) st)
      else if num_eq (prevx st) x \<and> num_lt (prevy st) y then
        fig_add (Arc (Fin 0) (Fin 90) (num_sub x corner) (num_sub y corner) corner corner)
          (fig_add (Line x (num_sub y corner)) st)
      else if num_gt (prevx st) x \<and> num_eq (prevy st) y then
        fig_add (Arc (Fin 90) (Fin 90) (num_add x corner) (num_sub y corner) corner corner)
          (fig_add (Line (num_add x corner) y) st)
      else st)\<lparr>prevx := x, prevy := y\<rparr>"

text \<open>Statements in sequence.\<close>

definition steps :: "('s \<Rightarrow> 's) list \<Rightarrow> 's \<Rightarrow> 's" where
  "steps fs st = fold (\<lambda>f s. f s) fs st"

text \<open>The point \<open>pn\<close> the balloon points at.\<close>

definition balloon_target :: "geo_lib \<Rightarrow> BalloonLink \<Rightarrow> rect \<Rightarrow> point" where
  "balloon_target lib l bb =
     (let pn = (if bl_points l = [] then r_center bb else last (bl_points l)) in
      case bl_toNode l of
        Some tonode \<Rightarrow>
          if intersectsRect lib bb (n_actualBounds tonode) then r_center (n_actualBounds tonode)
          else pn
      | None \<Rightarrow>
          if bl_points l = [] then Point (r_centerX bb) (num_add (r_bottom bb) (Fin 50))
          else pn)"

text \<open>The base and the corner radius that \<open>makeGeometry\<close> draws with.\<close>

definition balloon_base :: "BalloonLink \<Rightarrow> jsnum" where
  "balloon_base l = num_max (Fin 0) (bl_base l)"

definition balloon_corner :: "BalloonLink \<Rightarrow> rect \<Rightarrow> jsnum" where
  "balloon_corner l bb =
     num_min (num_max (Fin 0) (bl_corner l))
             (num_min (num_div (r_width bb) (Fin 2)) (num_div (r_height bb) (Fin 2)))"

text \<open>The outline of the balloon: the nine positions of \<open>pn\<close> about the rectangle.\<close>

definition balloon_outline :: "point \<Rightarrow> rect \<Rightarrow> jsnum \<Rightarrow> jsnum \<Rightarrow> pen \<Rightarrow> pen" where
  "balloon_outline pn bb base corner =
     (let cornerext = num_min base (num_add corner (num_div base (Fin 2)));
          left = r_left bb; top = r_top bb; right = r_right bb; bottom = r_bottom bb
      in
      if num_lt (point_x pn) left then
        (if num_lt (point_y pn) top then
           steps [start left (num_min (num_add top cornerext) (num_sub bottom corner)),
                  point (point_x pn) (point_y pn)
                        (num_min (num_add left cornerext) (num_sub right corner)) top,
                  turn corner right top, turn corner right bottom, turn corner left bottom]
         else if num_gt (point_y pn) bottom then
           steps [start (num_min (num_add left cornerext) (num_sub right corner)) bottom,
                  point (point_x pn) (point_y pn)
                        left (num_max (num_sub bottom cornerext) (num_add top corner)),
                  turn corner left top, turn corner right top, turn corner right bottom]
         else
           (let y = num_min (num_max (num_add (point_y pn) (num_div base (Fin 3)))
                                     (num_add (num_add top corner) base))
                            (num_sub bottom corner)
            in steps [start left y,
                      point (point_x pn) (point_y pn)
                            left (num_max (num_sub y base) (num_add top corner)),
                      turn corner left top, turn corner right top, turn corner right bottom,
                      turn corner left bottom]))
      else if num_gt (point_x pn) right then
        (if num_lt (point_y pn) top then
           steps [start (num_max (num_sub right cornerext) (num_add left corner)) top,
                  point (point_x pn) (point_y pn)
                        right (num_min (num_add top cornerext) (num_sub bottom corner)),
                  turn corner right bottom, turn corner left bottom, turn corner left top]
         else if num_gt (point_y pn) bottom then
           steps [start right (num_max (num_sub bottom cornerext) (num_add top corner)),
                  point (point_x pn) (point_y pn)
                        (num_max (num_sub right cornerext) (num_add left corner)) bottom,
                  turn corner left bottom, turn corner left top, turn corner right top]
         else
           (let y = num_min (num_max (num_add (point_y pn) (num_div base (Fin 3)))
                                     (num_add (num_add top corner) base))
                            (num_sub bottom corner)
            in steps [start right (num_max (num_sub y base) (num_add top corner)),
                      point (point_x pn) (point_y pn) right y,
                      turn corner right bottom, turn corner left bottom, turn corner left top,
                      turn corner right top]))
      else
        (let x = num_min (num_max (num_add (point_x pn) (num_div base (Fin 3)))
                                  (num_add (num_add left corner) base))
                         (num_sub right corner)
         in
         if num_lt (point_y pn) top then
           steps [start (num_max (num_sub x base) (num_add left corner)) top,
                  point (point_x pn) (point_y pn) x top,
                  turn corner right top, turn corner right bottom, turn corner left bottom,
                  turn corner left top]
         else if num_gt (point_y pn) bottom then
           steps [start x bottom,
                  point (point_x pn) (point_y pn)
                        (num_max (num_sub x base) (num_add left corner)) bottom,
                  turn corner left bottom, turn corner left top, turn corner right top,
                  turn corner right bottom]
         else
           steps [start left (num_add top (num_div (r_height bb) (Fin 2))),
                  turn corner left top, turn corner right top, turn corner right bottom,
                  turn corner left bottom]))"

text \<open>\<open>fig.segments.last().close()\<close>: \<open>last\<close> of an empty list is null.\<close>

definition close_last :: "figure \<Rightarrow> error + figure" where
  "close_last fig =
     (if fig_segments fig = [] then Inl (TypeError ''null has no close'')
      else Inr (fig\<lparr>fig_segments :=
                     butlast (fig_segments fig)
                     @ [PathSegment (seg_shape (last (fig_segments fig))) True]\<rparr>))"

definition new_PathFigure :: figure where
  "new_PathFigure = \<lparr>fig_startX = Fin 0, fig_startY = Fin 0, fig_segments = []\<rparr>"

definition makeGeometry :: "geo_lib \<Rightarrow> BalloonLink \<Rightarrow> error + geometry" where
  "makeGeometry lib l =
     (case bl_fromNode l of
        None \<Rightarrow> Inr (Geometry [])
      | Some fromnode \<Rightarrow>
         (let bb = addMargin lib (n_actualBounds fromnode) (n_margin fromnode);
              pn = balloon_target lib l bb;
              base = balloon_base l;
              corner = balloon_corner l bb;
              st = balloon_outline pn bb base corner
                     \<lparr>pen_fig = new_PathFigure, prevx = Fin 0, prevy = Fin 0\<rparr>
          in case close_last (pen_fig st) of
               Inl e \<Rightarrow> Inl e
             | Inr fig \<Rightarrow>
                 Inr (offset lib (num_neg (r_x (bl_routeBounds l)))
                                 (num_neg (r_y (bl_routeBounds l))) (Geometry [fig]))))"

text \<open>
  The geometry of the outline about \<open>bb\<close> drawn with a given base and a given corner
  radius: the figure closed at its last segment and moved by the \<open>routeBounds\<close>.
\<close>

definition outline_geometry ::
  "geo_lib \<Rightarrow> BalloonLink \<Rightarrow> rect \<Rightarrow> jsnum \<Rightarrow> jsnum \<Rightarrow> error + geometry" where
  "outline_geometry lib l bb base corner =
     (case close_last
             (pen_fig (balloon_outline (balloon_target lib l bb) bb base corner
                         \<lparr>pen_fig = new_PathFigure, prevx = Fin 0, prevy = Fin 0\<rparr>)) of
        Inl e \<Rightarrow> Inl e
      | Inr fig \<Rightarrow>
          Inr (offset lib (num_neg (r_x (bl_routeBounds l))) (num_neg (r_y (bl_routeBounds l)))
                 (Geometry [fig])))"

text \<open>The radii of an arc.\<close>

fun arc_radii :: "shape \<Rightarrow> (jsnum \<times> jsnum) option" where
  "arc_radii (Arc a b cx cy rx ry) = Some (rx, ry)"
| "arc_radii (Line x y) = None"

text \<open>
  A library and a balloon to run \<open>makeGeometry\<close> on: a comment node of 100 by 40 at the
  origin, no margin, pointing at (200, 100); \<open>offset\<close> is recorded, not carried out.
\<close>

definition mk_rect :: "real \<Rightarrow> real \<Rightarrow> real \<Rightarrow> real \<Rightarrow> rect" where
  "mk_rect x y w h =
     \<lparr>r_x = Fin x, r_y = Fin y, r_width = Fin w, r_height = Fin h,
      r_left = Fin x, r_top = Fin y, r_right = Fin (x + w), r_bottom = Fin (y + h),
      r_centerX = Fin (x + w / 2), r_center = Point (Fin (x + w / 2)) (Fin (y + h / 2))\<rparr>"

definition still_lib :: geo_lib where
  "still_lib = \<lparr>addMargin = (\<lambda>r m. r), intersectsRect = (\<lambda>a b. False), offset = (\<lambda>dx dy g. g)\<rparr>"

definition comment_node :: node where
  "comment_node =
     \<lparr>n_actualBounds = mk_rect 0 0 100 40,
      n_margin = \<lparr>m_top = Fin 0, m_right = Fin 0, m_bottom = Fin 0, m_left = Fin 0\<rparr>\<rparr>"

definition balloon :: BalloonLink where
  "balloon =
     \<lparr>bl_base = Fin 15, bl_corner = Fin 10, bl_fromNode = Some comment_node, bl_toNode = None,
      bl_points = [Point (Fin 50) (Fin 20), Point (Fin 200) (Fin 100)],
      bl_routeBounds = mk_rect 0 0 200 100, bl_changed = []\<rparr>"

text \<open>The same balloon with a negative base and a corner too large for the node.\<close>

definition clamped_balloon :: BalloonLink where
  "clamped_balloon = balloon\<lparr>bl_base := Fin (- 5), bl_corner := Fin 100\<rparr>"

text \<open>Every arc among the segments has both radii equal to \<open>c\<close>.\<close>

definition arcs_with_radius :: "jsnum \<Rightarrow> segment list \<Rightarrow> bool" where
  "arcs_with_radius c segs =
     list_all (\<lambda>sg. case arc_radii (seg_shape sg) of None \<Rightarrow> True | Some r \<Rightarrow> r = (c, c)) segs"

text \<open>A step of the construction after which every arc still has both radii equal to \<open>c\<close>.\<close>

definition keeps_arcs :: "jsnum \<Rightarrow> (pen \<Rightarrow> pen) \<Rightarrow> bool" where
  "keeps_arcs c f = (\<forall>st. arcs_with_radius c (fig_segments (pen_fig st)) \<longrightarrow>
                          arcs_with_radius c (fig_segments (pen_fig (f st))))"

section \<open>DoubleTreeLayout\<close>

text \<open>
  What \<open>separatePartsForLayout\<close> asks of the library, over a state \<open>'w\<close> of the
  diagram's objects: the tree queries of a Node (\<open>findTreeParentNode\<close>,
  \<open>findTreeChildrenNodes\<close>, \<open>findTreeParts\<close>, \<open>findTreeParentLink\<close>), the two
  constructors \<open>new go.Node()\<close> and \<open>new go.Link()\<close>, which return the new object, and
  the setters of \<open>Node.location\<close>, \<open>Link.fromNode\<close> and \<open>Link.toNode\<close>.
\<close>

record 'w tree_lib =
  findTreeParentNode :: "'w \<Rightarrow> oid \<Rightarrow> oid option"
  findTreeChildrenNodes :: "'w \<Rightarrow> oid \<Rightarrow> oid list"
  findTreeParts :: "'w \<Rightarrow> oid \<Rightarrow> part list"
  findTreeParentLink :: "'w \<Rightarrow> oid \<Rightarrow> oid option"
  new_Node :: "'w \<Rightarrow> oid \<times> 'w"
  new_Link :: "'w \<Rightarrow> oid \<times> 'w"
  set_location :: "oid \<Rightarrow> point \<Rightarrow> 'w \<Rightarrow> 'w"
  set_fromNode :: "oid \<Rightarrow> oid \<Rightarrow> 'w \<Rightarrow> 'w"
  set_toNode :: "oid \<Rightarrow> oid \<Rightarrow> 'w \<Rightarrow> 'w"

text \<open>
  The layout: its \<open>directionFunction\<close>, which is always a function (the constructor sets
  one and the setter refuses anything else), and \<open>isTreePathToChildren\<close> of its diagram
  (\<open>None\<close> when the layout has no diagram).
\<close>

record 'w DoubleTreeLayout =
  dt_vertical :: bool
  dt_directionFunction :: "'w \<Rightarrow> oid \<Rightarrow> bool"
  dt_diagram_isTreePathToChildren :: "bool option"

definition isPositiveDirection :: "'w DoubleTreeLayout \<Rightarrow> 'w \<Rightarrow> oid \<Rightarrow> bool" where
  "isPositiveDirection lay w child = dt_directionFunction lay w child"

text \<open>The nodes of the collection without a tree parent, in the order of the collection.\<close>

definition collect_roots :: "'w tree_lib \<Rightarrow> 'w \<Rightarrow> part list \<Rightarrow> oid list" where
  "collect_roots lib w coll =
     fold (\<lambda>p roots. case p of
                        Node n \<Rightarrow> if findTreeParentNode lib w n = None then Set_add n roots
                                  else roots
                      | _ \<Rightarrow> roots) coll []"

text \<open>The first Node of the collection, if there is one.\<close>

fun first_Node :: "part list \<Rightarrow> oid option" where
  "first_Node [] = None"
| "first_Node (Node n # ps) = Some n"
| "first_Node (_ # ps) = first_Node ps"

text \<open>One dummy link between the dummy root and one of the roots.\<close>

definition link_to_root :: "'w tree_lib \<Rightarrow> bool \<Rightarrow> oid \<Rightarrow> oid \<Rightarrow> 'w \<Rightarrow> 'w" where
  "link_to_root lib forwards rt child w =
     (let (link, w1) = new_Link lib w in
      if forwards then set_toNode lib link child (set_fromNode lib link rt w1)
      else set_toNode lib link rt (set_fromNode lib link child w1))"

text \<open>The choice of the one root (\<open>rt\<close>), with the state of the diagram's objects after it.\<close>

definition choose_root ::
  "'w tree_lib \<Rightarrow> 'w DoubleTreeLayout \<Rightarrow> 'w \<Rightarrow> part list \<Rightarrow> oid option \<times> 'w" where
  "choose_root lib lay w coll =
     (let roots = collect_roots lib w coll in
      if length roots = 0 then (first_Node coll, w)
      else if length roots = 1 then (Some (hd roots), w)
      else
        (let (rt, w1) = new_Node lib w;
             w2 = set_location lib rt (Point (Fin 0) (Fin 0)) w1;
             forwards = (case dt_diagram_isTreePathToChildren lay of Some b \<Rightarrow> b | None \<Rightarrow> True)
         in (Some rt, fold (link_to_root lib forwards rt) roots w2)))"

text \<open>The body of the loop over the children of the root.\<close>

definition place_child ::
  "'w tree_lib \<Rightarrow> 'w DoubleTreeLayout \<Rightarrow> 'w \<Rightarrow> oid \<Rightarrow> part list \<times> part list \<Rightarrow> part list \<times> part list" where
  "place_child lib lay w child lr =
     (let bottomright = isPositiveDirection lay w child;
          add_subtree = (\<lambda>parts.
             let parts1 = Set_addAll (findTreeParts lib w child) parts in
             case findTreeParentLink lib w child of
               Some plink \<Rightarrow> Set_add (Link plink) parts1
             | None \<Rightarrow> parts1)
      in if bottomright then (fst lr, add_subtree (snd lr)) else (add_subtree (fst lr), snd lr))"

text \<open>
  \<open>separatePartsForLayout\<close>: the state of the diagram's objects and the two sets
  \<open>leftParts\<close> and \<open>rightParts\<close> as the call leaves them.
\<close>

definition separatePartsForLayout ::
  "'w tree_lib \<Rightarrow> 'w DoubleTreeLayout \<Rightarrow> 'w \<Rightarrow> part list \<Rightarrow> part list \<Rightarrow> part list
     \<Rightarrow> 'w \<times> part list \<times> part list" where
  "separatePartsForLayout lib lay w coll leftParts rightParts =
     (case choose_root lib lay w coll of
        (None, w') \<Rightarrow> (w', leftParts, rightParts)
      | (Some rt, w') \<Rightarrow>
          (let lr = fold (place_child lib lay w') (findTreeChildrenNodes lib w' rt)
                      (Set_add (Node rt) leftParts, Set_add (Node rt) rightParts)
           in (w', fst lr, snd lr)))"

text \<open>What one child brings to its side: its subtree and the link from its parent.\<close>

definition subtree_with_link :: "'w tree_lib \<Rightarrow> 'w \<Rightarrow> oid \<Rightarrow> part set" where
  "subtree_with_link lib w child =
     set (findTreeParts lib w child)
     \<union> (case findTreeParentLink lib w child of Some plink \<Rightarrow> {Link plink} | None \<Rightarrow> {})"

text \<open>
  A diagram to run the layout on. Its state is the list of the links made so far, as
  (link, from, to), with the next free identity; a node's tree parent is the \<open>from\<close> of
  the first link that ends at it. Nodes 1, 2 and 3 hang under node 0; nodes 5 and 6 are
  two roots of a second collection.
\<close>

type_synonym world = "(oid \<times> oid \<times> oid) list \<times> nat"

definition parent_link :: "world \<Rightarrow> oid \<Rightarrow> (oid \<times> oid \<times> oid) option" where
  "parent_link w n = find (\<lambda>(l, f, t). t = n) (fst w)"

definition toy_lib :: "world tree_lib" where
  "toy_lib =
     \<lparr>findTreeParentNode = (\<lambda>w n. map_option (\<lambda>(l, f, t). f) (parent_link w n)),
      findTreeChildrenNodes = (\<lambda>w n. map (\<lambda>(l, f, t). t) (filter (\<lambda>(l, f, t). f = n) (fst w))),
      findTreeParts = (\<lambda>w n. [Node n]),
      findTreeParentLink = (\<lambda>w n. map_option (\<lambda>(l, f, t). l) (parent_link w n)),
      new_Node = (\<lambda>w. (snd w, (fst w, Suc (snd w)))),
      new_Link = (\<lambda>w. (snd w, (fst w @ [(snd w, snd w, snd w)], Suc (snd w)))),
      set_location = (\<lambda>n p w. w),
      set_fromNode = (\<lambda>l n w. (map (\<lambda>(k, f, t). if k = l then (k, n, t) else (k, f, t)) (fst w), snd w)),
      set_toNode = (\<lambda>l n w. (map (\<lambda>(k, f, t). if k = l then (k, f, n) else (k, f, t)) (fst w), snd w))\<rparr>"

definition toy_world :: world where
  "toy_world = ([(10, 0, 1), (11, 0, 2), (12, 0, 3)], 20)"

definition toy_layout :: "world DoubleTreeLayout" where
  "toy_layout =
     \<lparr>dt_vertical = False, dt_directionFunction = (\<lambda>w n. n = 2),
      dt_diagram_isTreePathToChildren = Some True\<rparr>"

definition toy_backwards :: "world DoubleTreeLayout" where
  "toy_backwards =
     \<lparr>dt_vertical = False, dt_directionFunction = (\<lambda>w n. n = 2),
      dt_diagram_isTreePathToChildren = Some False\<rparr>"

definition toy_coll :: "part list" where
  "toy_coll = [Link 10, Node 1, Node 0, Node 2, Link 11, Node 3, Link 12]"

section \<open>SpiralLayout\<close>

text \<open>
  \<open>Math.cos\<close>, \<open>Math.sin\<close>, \<open>Math.atan\<close>, \<open>Math.sqrt\<close>, \<open>Math.abs\<close> and \<open>Math.PI\<close>,
  on the idealised numbers: the real functions on finite values, NaN where JavaScript
  gives NaN.
\<close>

fun Math_cos :: "jsnum \<Rightarrow> jsnum" where
  "Math_cos (Fin a) = Fin (cos a)"
| "Math_cos _ = NaN"

fun Math_sin :: "jsnum \<Rightarrow> jsnum" where
  "Math_sin (Fin a) = Fin (sin a)"
| "Math_sin _ = NaN"

fun Math_atan :: "jsnum \<Rightarrow> jsnum" where
  "Math_atan (Fin a) = Fin (arctan a)"
| "Math_atan PInf = Fin (pi / 2)"
| "Math_atan NInf = Fin (- pi / 2)"
| "Math_atan NaN = NaN"

fun Math_sqrt :: "jsnum \<Rightarrow> jsnum" where
  "Math_sqrt (Fin a) = (if a < 0 then NaN else Fin (sqrt a))"
| "Math_sqrt PInf = PInf"
| "Math_sqrt _ = NaN"

fun Math_abs :: "jsnum \<Rightarrow> jsnum" where
  "Math_abs (Fin a) = Fin \<bar>a\<bar>"
| "Math_abs NaN = NaN"
| "Math_abs _ = PInf"

definition Math_PI :: jsnum where
  "Math_PI = Fin pi"

text \<open>
  The \<open>go.LayoutNetwork\<close> as \<open>doLayout\<close> reads it. A vertex has the count of its
  \<open>sourceEdges\<close>, the first of its \<open>destinationEdges\<close>, the width and height of its
  \<open>bounds\<close> and its \<open>node\<close>; an edge has its \<open>link\<close> and its \<open>toVertex\<close>; a link
  has its \<open>toNode\<close>; a node is a \<open>go.Group\<close> or not and has a \<open>location\<close>. \<open>None\<close>
  stands for null. Vertexes, edges, links and nodes are known by their identity.
\<close>

record vertex =
  v_sourceEdges_count :: nat
  v_destinationEdges_first :: "oid option"
  v_bounds_width :: jsnum
  v_bounds_height :: jsnum
  v_node :: "oid option"

record edge =
  e_link :: "oid option"
  e_toVertex :: "oid option"

record network =
  net_vertexes :: "oid list"
  net_vertex :: "oid \<Rightarrow> vertex"
  net_edge :: "oid \<Rightarrow> edge"
  net_link_toNode :: "oid \<Rightarrow> oid option"
  net_node_isGroup :: "oid \<Rightarrow> bool"
  net_node_location :: "oid \<Rightarrow> point"

text \<open>
  What \<open>doLayout\<close> writes: the centre of each vertex (\<open>centerX\<close>, \<open>centerY\<close>) and the
  \<open>curviness\<close> of each link; \<open>updateParts\<close> is counted.
\<close>

record placement =
  pl_center :: "oid \<Rightarrow> point"
  pl_curviness :: "oid \<Rightarrow> jsnum"
  pl_partsUpdated :: nat

text \<open>
  The layout: \<open>radius\<close>, \<open>spacing\<close>, \<open>clockwise\<close>, with \<open>isRouting\<close> and the
  \<open>arrangementOrigin\<close> of the Layout it extends.
\<close>

record SpiralLayout =
  sp_radius :: jsnum
  sp_spacing :: jsnum
  sp_clockwise :: bool
  sp_isRouting :: bool
  sp_arrangementOrigin :: point

text \<open>What \<open>doLayout\<close> asks of the library: \<open>Layout.initialOrigin\<close> and \<open>Point.subtract\<close>.\<close>

record spiral_lib =
  initialOrigin :: "point \<Rightarrow> point"
  subtract :: "point \<Rightarrow> point \<Rightarrow> point"

text \<open>The effective diameter of a vertex.\<close>

definition diameter :: "vertex \<Rightarrow> jsnum" where
  "diameter v =
     Math_sqrt (num_add (num_mul (v_bounds_width v) (v_bounds_width v))
                        (num_mul (v_bounds_height v) (v_bounds_height v)))"

text \<open>
  The search for a root: the first vertex without incoming edge; failing that, the first
  vertex.
\<close>

fun find_root :: "network \<Rightarrow> oid list \<Rightarrow> oid option \<Rightarrow> oid option" where
  "find_root net [] rt = rt"
| "find_root net (v # vs) rt =
     (let rt1 = (if rt = None then Some v else rt) in
      if v_sourceEdges_count (net_vertex net v) = 0 then Some v
      else find_root net vs rt1)"

definition cw_of :: "SpiralLayout \<Rightarrow> jsnum" where
  "cw_of lay = (if sp_clockwise lay then Fin 1 else Fin (- 1))"

text \<open>
  One turn of the loop for the vertex \<open>vert\<close> at the angle \<open>angle\<close>: the placement after
  it, the next vertex and the next angle. \<open>link\<close> is the link of the first edge out of
  the root, fixed before the loop and never assigned in it.
\<close>

definition place_vertex ::
  "spiral_lib \<Rightarrow> SpiralLayout \<Rightarrow> network \<Rightarrow> point \<Rightarrow> jsnum \<Rightarrow> oid option \<Rightarrow> oid \<Rightarrow> jsnum
     \<Rightarrow> placement \<Rightarrow> placement \<times> oid option \<times> jsnum" where
  "place_vertex lib lay net origin rad link vert angle st =
     (let cw = cw_of lay;
          space = sp_spacing lay;
          cos = Math_cos angle;
          sin = Math_sin angle;
          x0 = num_mul rad (num_add cos (num_mul angle sin));
          y0 = num_mul rad (num_sub sin (num_mul angle cos));
          shift =
            (case link of
               None \<Rightarrow> None
             | Some lk \<Rightarrow>
                (case v_node (net_vertex net vert) of
                   None \<Rightarrow> None
                 | Some vnode \<Rightarrow>
                    (case net_link_toNode net lk of
                       None \<Rightarrow> None
                     | Some tonode \<Rightarrow>
                         if net_node_isGroup net vnode \<and> tonode \<noteq> vnode
                         then Some (subtract lib (net_node_location net tonode)
                                                 (net_node_location net vnode))
                         else None)));
          x = (case shift of None \<Rightarrow> x0 | Some off \<Rightarrow> num_sub x0 (point_x off));
          y = (case shift of None \<Rightarrow> y0 | Some off \<Rightarrow> num_sub y0 (point_y off));
          st1 = st\<lparr>pl_center := (pl_center st)
                        (vert := Point (num_add x (point_x origin)) (num_add y (point_y origin)))\<rparr>;
          nextedge = v_destinationEdges_first (net_vertex net vert);
          nextvert = (case nextedge of None \<Rightarrow> None | Some e \<Rightarrow> e_toVertex (net_edge net e))
      in case nextvert of
           None \<Rightarrow> (st1, None, angle)
         | Some nv \<Rightarrow>
            (let st2 =
                   (case nextedge of
                      None \<Rightarrow> st1
                    | Some e \<Rightarrow>
                       (case e_link (net_edge net e) of
                          None \<Rightarrow> st1
                        | Some nl \<Rightarrow>
                            if sp_isRouting lay \<and> \<not> isNaN (pl_curviness st1 nl)
                            then st1\<lparr>pl_curviness := (pl_curviness st1)
                                       (nl := num_mul cw (Math_abs (pl_curviness st1 nl)))\<rparr>
                            else st1));
                 dia = num_add (num_div (diameter (net_vertex net vert)) (Fin 2))
                               (num_div (diameter (net_vertex net nv)) (Fin 2));
                 angle1 = num_add angle
                            (num_mul cw (Math_atan (num_div (num_add dia space)
                               (Math_sqrt (num_add (num_mul x x) (num_mul y y))))))
             in (st2, Some nv, angle1)))"

text \<open>
  The loop \<open>while (vert !== null)\<close>. It follows first destination edges and does not end
  when they lead round a circle: the result is \<open>None\<close> then.
\<close>

partial_function (option) place_chain ::
  "spiral_lib \<Rightarrow> SpiralLayout \<Rightarrow> network \<Rightarrow> point \<Rightarrow> jsnum \<Rightarrow> oid option \<Rightarrow> oid option \<Rightarrow> jsnum
     \<Rightarrow> placement \<Rightarrow> placement option" where
  "place_chain lib lay net origin rad link vert angle st =
     (case vert of
        None \<Rightarrow> Some st
      | Some v \<Rightarrow>
         (case place_vertex lib lay net origin rad link v angle st of
            (st1, nextvert, angle1) \<Rightarrow>
              place_chain lib lay net origin rad link nextvert angle1 st1))"

text \<open>
  \<open>doLayout\<close> on the network of the collection: the placement it leaves, or \<open>None\<close>
  when it does not return. Without a root nothing is written.
\<close>

definition doLayout :: "spiral_lib \<Rightarrow> SpiralLayout \<Rightarrow> network \<Rightarrow> placement \<Rightarrow> placement option" where
  "doLayout lib lay net st =
     (let origin = initialOrigin lib (sp_arrangementOrigin lay) in
      case find_root net (net_vertexes net) None of
        None \<Rightarrow> Some st
      | Some rt \<Rightarrow>
         (let space = sp_spacing lay;
              cw = cw_of lay;
              rad = (if num_le (sp_radius lay) (Fin 0) \<or> isNaN (sp_radius lay)
                        \<or> \<not> isFinite (sp_radius lay)
                     then num_div (diameter (net_vertex net rt)) (Fin 4)
                     else sp_radius lay);
              angle = num_mul cw Math_PI;
              st1 = st\<lparr>pl_center := (pl_center st)(rt := Point (point_x origin) (point_y origin))\<rparr>;
              edge = v_destinationEdges_first (net_vertex net rt);
              link = (case edge of None \<Rightarrow> None | Some e \<Rightarrow> e_link (net_edge net e));
              st2 = (case link of
                       None \<Rightarrow> st1
                     | Some lk \<Rightarrow> st1\<lparr>pl_curviness := (pl_curviness st1)(lk := num_mul cw rad)\<rparr>);
              vert = (case edge of None \<Rightarrow> None | Some e \<Rightarrow> e_toVertex (net_edge net e))
          in case place_chain lib lay net origin rad link vert angle st2 of
               None \<Rightarrow> None
             | Some st3 \<Rightarrow> Some (st3\<lparr>pl_partsUpdated := Suc (pl_partsUpdated st3)\<rparr>)))"

subsection \<open>The placement as described\<close>

text \<open>
  The offset of the member a link ends at from the Group that the vertex \<open>vert\<close> stands
  for: the location of the link's \<open>toNode\<close> less that of the vertex's node, when that
  node is a Group and the link ends at another node; none otherwise.
\<close>

definition group_offset :: "spiral_lib \<Rightarrow> network \<Rightarrow> oid option \<Rightarrow> oid \<Rightarrow> point option" where
  "group_offset lib net link vert =
     (case (link, v_node (net_vertex net vert)) of
        (Some lk, Some vnode) \<Rightarrow>
          (case net_link_toNode net lk of
             Some tonode \<Rightarrow>
               if net_node_isGroup net vnode \<and> tonode \<noteq> vnode
               then Some (subtract lib (net_node_location net tonode) (net_node_location net vnode))
               else None
           | None \<Rightarrow> None)
      | _ \<Rightarrow> None)"

text \<open>
  The point of the involute spiral of radius \<open>rad\<close> at \<open>angle\<close>, relative to the
  origin, moved back by the offset if there is one.
\<close>

definition involute :: "jsnum \<Rightarrow> jsnum \<Rightarrow> point option \<Rightarrow> jsnum \<times> jsnum" where
  "involute rad angle shift =
     (let x = num_mul rad (num_add (Math_cos angle) (num_mul angle (Math_sin angle)));
          y = num_mul rad (num_sub (Math_sin angle) (num_mul angle (Math_cos angle)))
      in case shift of
           None \<Rightarrow> (x, y)
         | Some off \<Rightarrow> (num_sub x (point_x off), num_sub y (point_y off)))"

text \<open>The angle after a vertex placed at \<open>(x, y)\<close> from the origin that has a successor.\<close>

definition next_angle :: "SpiralLayout \<Rightarrow> network \<Rightarrow> oid \<Rightarrow> oid \<Rightarrow> jsnum \<Rightarrow> jsnum \<Rightarrow> jsnum \<Rightarrow> jsnum" where
  "next_angle lay net vert nextvert x y angle =
     num_add angle
       (num_mul (cw_of lay)
          (Math_atan
             (num_div (num_add (num_add (num_div (diameter (net_vertex net vert)) (Fin 2))
                                        (num_div (diameter (net_vertex net nextvert)) (Fin 2)))
                               (sp_spacing lay))
                      (Math_sqrt (num_add (num_mul x x) (num_mul y y))))))"

text \<open>
  The radius the spiral is drawn with: the \<open>radius\<close> property when it is a positive
  finite number, a quarter of the diameter of the root otherwise.
\<close>

definition effective_radius :: "SpiralLayout \<Rightarrow> network \<Rightarrow> oid \<Rightarrow> jsnum" where
  "effective_radius lay net rt =
     (case sp_radius lay of
        Fin r \<Rightarrow> if 0 < r then Fin r else num_div (diameter (net_vertex net rt)) (Fin 4)
      | _ \<Rightarrow> num_div (diameter (net_vertex net rt)) (Fin 4))"

text \<open>
  The placement as the description of the layout gives it, for the chain of the vertexes
  that follow the root, each with the link of the edge that leads to it: the vertex at
  \<open>angle\<close> gets the point of the involute spiral, moved back by the offset of its own
  link when that link ends at a member of the Group the vertex stands for; a successor
  moves the angle on.
\<close>

fun spiral_centers ::
  "spiral_lib \<Rightarrow> SpiralLayout \<Rightarrow> network \<Rightarrow> point \<Rightarrow> jsnum \<Rightarrow> jsnum \<Rightarrow> (oid option \<times> oid) list
     \<Rightarrow> (oid \<times> point) list" where
  "spiral_centers lib lay net origin rad angle [] = []"
| "spiral_centers lib lay net origin rad angle ((l, v) # chain) =
     (let (x, y) = involute rad angle (group_offset lib net l v);
          c = Point (num_add x (point_x origin)) (num_add y (point_y origin))
      in (v, c) # (case chain of
                     [] \<Rightarrow> []
                   | (l1, v1) # rest \<Rightarrow>
                       spiral_centers lib lay net origin rad (next_angle lay net v v1 x y angle) chain))"

text \<open>
  The chain that the first destination edges spell from the edge \<open>e\<close> on: the link and
  the \<open>toVertex\<close> of each edge in turn, ending at a vertex without destination edge or
  at an edge without \<open>toVertex\<close>.
\<close>

fun chain_from :: "network \<Rightarrow> oid option \<Rightarrow> (oid option \<times> oid) list \<Rightarrow> bool" where
  "chain_from net e [] =
     (case e of None \<Rightarrow> True | Some e1 \<Rightarrow> e_toVertex (net_edge net e1) = None)"
| "chain_from net e ((l, v) # chain) =
     (case e of
        None \<Rightarrow> False
      | Some e1 \<Rightarrow> e_link (net_edge net e1) = l \<and> e_toVertex (net_edge net e1) = Some v
                   \<and> chain_from net (v_destinationEdges_first (net_vertex net v)) chain)"

text \<open>
  A diagram to lay out: a root, a node and a Group, linked in a chain; every vertex is 40
  by 30. The link into the Group ends at the Group itself.
\<close>

definition plain_spiral_lib :: spiral_lib where
  "plain_spiral_lib =
     \<lparr>initialOrigin = (\<lambda>p. p),
      subtract = (\<lambda>p q. Point (num_sub (point_x p) (point_x q)) (num_sub (point_y p) (point_y q)))\<rparr>"

definition chain_net :: network where
  "chain_net =
     \<lparr>net_vertexes = [0, 1, 2],
      net_vertex = (\<lambda>v. \<lparr>v_sourceEdges_count = (if v = 0 then 0 else 1),
                            v_destinationEdges_first =
                              (if v = 0 then Some 10 else if v = 1 then Some 11 else None),
                            v_bounds_width = Fin 40, v_bounds_height = Fin 30,
                            v_node = Some (100 + v)\<rparr>),
      net_edge = (\<lambda>e. \<lparr>e_link = Some (e + 10), e_toVertex = Some (e - 9)\<rparr>),
      net_link_toNode = (\<lambda>l. Some (l + 81)),
      net_node_isGroup = (\<lambda>n. n = 102),
      net_node_location = (\<lambda>n. if n = 101 then Point (Fin 130) (Fin 40) else Point (Fin 100) (Fin 0))\<rparr>"

definition default_spiral :: SpiralLayout where
  "default_spiral =
     \<lparr>sp_radius = NaN, sp_spacing = Fin 10, sp_clockwise = True, sp_isRouting = True,
      sp_arrangementOrigin = Point (Fin 0) (Fin 0)\<rparr>"

definition blank_placement :: placement where
  "blank_placement =
     \<lparr>pl_center = (\<lambda>v. Point NaN NaN), pl_curviness = (\<lambda>l. NaN), pl_partsUpdated = 0\<rparr>"

section \<open>Properties of DimensioningLink\<close>

lemma num_eq_Fin: "num_eq v (Fin r) = (v = Fin r)"
  by (cases v) auto

text \<open>
  Claim C2. Assigning a number \<open>v\<close> to \<open>direction\<close> succeeds exactly when \<open>v\<close> is NaN, 0,
  90, 180 or 270: then \<open>v\<close> is stored, one Changed event for \<open>direction\<close> (old value, new
  value) is raised and the route is invalidated, nothing else changing. For every other
  number the setter throws and the link is left exactly as it was.
\<close>

theorem set_direction_valid_or_throws:
  "(v \<in> {NaN, Fin 0, Fin 90, Fin 180, Fin 270} \<longrightarrow>
      set_direction v l =
        Normal (l\<lparr>dl_direction := v,
                  dl_changed := dl_changed l @ [(''direction'', dl_direction l, v)],
                  dl_routeValid := False\<rparr>))
   \<and> (v \<notin> {NaN, Fin 0, Fin 90, Fin 180, Fin 270} \<longrightarrow>
      threw (set_direction v l) \<and> final_state (set_direction v l) = l)"
  by (auto simp: set_direction_def isNaN_def num_eq_Fin raiseChangedEvent_def
      invalidateRoute_def Let_def)

theorem set_direction_valid_or_throws_witness:
  "set_direction (Fin 90) default_link
     = Normal (default_link\<lparr>dl_direction := Fin 90,
                 dl_changed := [(''direction'', Fin 0, Fin 90)], dl_routeValid := False\<rparr>)
   \<and> threw (set_direction (Fin 45) default_link)
   \<and> final_state (set_direction (Fin 45) default_link) = default_link"
  using set_direction_valid_or_throws [of "Fin 90" default_link]
    set_direction_valid_or_throws [of "Fin 45" default_link]
  by (simp add: default_link_def)

lemma length_addPointsAt: "length (dl_points (addPointsAt ps l)) = length (dl_points l) + length ps"
  unfolding addPointsAt_def
  by (induction ps arbitrary: l) (auto simp: addPointAt_def split: prod.splits)

lemma dimension_points_six:
  assumes "dl_direction l \<in> {NaN, Fin 0, Fin 90, Fin 180, Fin 270}"
  shows "length (dl_points (dimension_points lib a b l)) = length (dl_points l) + 6"
  using assms
  by (auto simp: dimension_points_def Let_def isNaN_def num_eq_Fin length_addPointsAt
      split: prod.splits)

text \<open>
  Claim C4. \<open>computePoints\<close> returns false and leaves the link (its route included) as
  it was when \<open>fromNode\<close>, \<open>fromPort\<close>, \<open>toNode\<close> or \<open>toPort\<close> is null or when one of
  the two link points computed by the library is not real. Otherwise, for every direction
  among NaN, 0, 90, 180 and 270, it returns true and the route it leaves has exactly six
  points, whatever the route held before.
\<close>

theorem computePoints_false_or_six:
  "(dl_fromNode l = None \<or> dl_fromPort l = None \<or> dl_toNode l = None \<or> dl_toPort l = None
      \<longrightarrow> computePoints lib l = (False, l))
   \<and> (dl_fromNode l = Some fn \<and> dl_fromPort l = Some fp \<and> dl_toNode l = Some tn
        \<and> dl_toPort l = Some tp
        \<and> (\<not> isReal (getLinkPoint lib fn fp (computeSpot lib True) True True tn tp)
            \<or> \<not> isReal (getLinkPoint lib tn tp (computeSpot lib False) False True fn fp))
      \<longrightarrow> computePoints lib l = (False, l))
   \<and> (dl_fromNode l = Some fn \<and> dl_fromPort l = Some fp \<and> dl_toNode l = Some tn
        \<and> dl_toPort l = Some tp
        \<and> isReal (getLinkPoint lib fn fp (computeSpot lib True) True True tn tp)
        \<and> isReal (getLinkPoint lib tn tp (computeSpot lib False) False True fn fp)
        \<and> dl_direction l \<in> {NaN, Fin 0, Fin 90, Fin 180, Fin 270}
      \<longrightarrow> fst (computePoints lib l)
          \<and> length (dl_points (snd (computePoints lib l))) = 6
          \<and> dl_points (snd (computePoints lib l))
              = dl_points (snd (computePoints lib (l\<lparr>dl_points := []\<rparr>))))"
proof (intro conjI impI)
  assume "dl_fromNode l = None \<or> dl_fromPort l = None \<or> dl_toNode l = None \<or> dl_toPort l = None"
  then show "computePoints lib l = (False, l)"
    by (auto simp: computePoints_def Let_def split: option.splits)
next
  assume "dl_fromNode l = Some fn \<and> dl_fromPort l = Some fp \<and> dl_toNode l = Some tn
        \<and> dl_toPort l = Some tp
        \<and> (\<not> isReal (getLinkPoint lib fn fp (computeSpot lib True) True True tn tp)
            \<or> \<not> isReal (getLinkPoint lib tn tp (computeSpot lib False) False True fn fp))"
  then show "computePoints lib l = (False, l)"
    by (auto simp: computePoints_def Let_def)
next
  assume h: "dl_fromNode l = Some fn \<and> dl_fromPort l = Some fp \<and> dl_toNode l = Some tn
        \<and> dl_toPort l = Some tp
        \<and> isReal (getLinkPoint lib fn fp (computeSpot lib True) True True tn tp)
        \<and> isReal (getLinkPoint lib tn tp (computeSpot lib False) False True fn fp)
        \<and> dl_direction l \<in> {NaN, Fin 0, Fin 90, Fin 180, Fin 270}"
  define a where "a = getLinkPoint lib fn fp (computeSpot lib True) True True tn tp"
  define b where "b = getLinkPoint lib tn tp (computeSpot lib False) False True fn fp"
  have run: "computePoints lib l'
      = (True, updateTargetBindings (dimension_points lib a b (clearPoints l')))"
    if "l' = l \<or> l' = l\<lparr>dl_points := []\<rparr>" for l'
    using h that by (auto simp: computePoints_def Let_def a_def b_def)
  have dir: "dl_direction (clearPoints l) \<in> {NaN, Fin 0, Fin 90, Fin 180, Fin 270}"
    using h by (simp add: clearPoints_def)
  show "fst (computePoints lib l)"
    by (simp add: run)
  show "length (dl_points (snd (computePoints lib l))) = 6"
    using dimension_points_six [OF dir, of lib a b]
    by (simp add: run updateTargetBindings_def clearPoints_def)
  show "dl_points (snd (computePoints lib l))
      = dl_points (snd (computePoints lib (l\<lparr>dl_points := []\<rparr>)))"
    by (simp add: run clearPoints_def)
qed

theorem computePoints_false_or_six_witness:
  "fst (computePoints flat_lib default_link)
   \<and> length (dl_points (snd (computePoints flat_lib default_link))) = 6
   \<and> computePoints flat_lib (default_link\<lparr>dl_toPort := None\<rparr>)
       = (False, default_link\<lparr>dl_toPort := None\<rparr>)"
  using computePoints_false_or_six [where l = default_link and lib = flat_lib
      and fn = 1 and fp = 1 and tn = 2 and tp = 2]
    computePoints_false_or_six [where l = "default_link\<lparr>dl_toPort := None\<rparr>"
      and lib = flat_lib and fn = 1 and fp = 1 and tn = 2 and tp = 2]
  by (simp add: default_link_def flat_lib_def isReal_def)

section \<open>Properties of ZoomSlider\<close>

lemma realign_fields:
  "zs_size (realign lib s) = zs_size s"
  "zs_buttonSize (realign lib s) = zs_buttonSize s"
  "zs_alignment (realign lib s) = zs_alignment s"
  "zs_alignmentFocus (realign lib s) = zs_alignmentFocus s"
  "zs_orientation (realign lib s) = zs_orientation s"
  "zs_opacity (realign lib s) = zs_opacity s"
  by (auto simp: realign_def split: option.splits)

text \<open>
  Every value of the wrong kind other than NaN for \<open>opacity\<close> is refused when it differs
  from the current value (not a number for \<open>size\<close> and \<open>buttonSize\<close>; not a Spot for
  \<open>alignment\<close> and \<open>alignmentFocus\<close>; a string other than \<open>horizontal\<close> and
  \<open>vertical\<close> for \<open>orientation\<close>; not a number, or a number outside the interval from 0
  to 1, for \<open>opacity\<close>): the assignment throws and the slider is left with every field
  as it was.
\<close>

lemma assign_wrong_type_throws:
  assumes "wrong_type p val"
    and "\<not> (p = opacity_p \<and> val = Number NaN)"
    and "differs lib p s val"
  shows "threw (assign lib p val s) \<and> final_state (assign lib p val s) = s"
proof (cases p)
  case size_p
  with assms show ?thesis by (cases val) (auto simp: set_size_def)
next
  case buttonSize_p
  with assms show ?thesis by (cases val) (auto simp: set_buttonSize_def)
next
  case alignment_p
  with assms show ?thesis by (cases val) (auto simp: set_alignment_def)
next
  case alignmentFocus_p
  with assms show ?thesis by (cases val) (auto simp: set_alignmentFocus_def)
next
  case orientation_p
  with assms show ?thesis by (cases val) (auto simp: set_orientation_def)
next
  case opacity_p
  show ?thesis
  proof (cases val)
    case (Number n)
    with assms opacity_p have "num_lt n (Fin 0) \<or> num_gt n (Fin 1)"
      by (cases n) (auto simp: num_gt_def)
    with assms opacity_p Number show ?thesis
      by (auto simp: set_opacity_def)
  qed (use assms opacity_p in \<open>auto simp: set_opacity_def\<close>)
qed

lemma assign_wrong_type_throws_default:
  "threw (assign plain_lib opacity_p (Number (Fin 2)) default_slider)
   \<and> final_state (assign plain_lib opacity_p (Number (Fin 2)) default_slider) = default_slider
   \<and> threw (assign plain_lib size_p (Str ''125'') default_slider)
   \<and> final_state (assign plain_lib size_p (Str ''125'') default_slider) = default_slider
   \<and> threw (assign plain_lib alignment_p Null default_slider)
   \<and> final_state (assign plain_lib alignment_p Null default_slider) = default_slider
   \<and> threw (assign plain_lib orientation_p (Str ''Vertical'') default_slider)
   \<and> final_state (assign plain_lib orientation_p (Str ''Vertical'') default_slider) = default_slider"
  using assign_wrong_type_throws [of opacity_p "Number (Fin 2)" plain_lib default_slider]
    assign_wrong_type_throws [of size_p "Str ''125''" plain_lib default_slider]
    assign_wrong_type_throws [of alignment_p Null plain_lib default_slider]
    assign_wrong_type_throws [of orientation_p "Str ''Vertical''" plain_lib default_slider]
  by (simp add: default_slider_def plain_lib_def)

lemma num_eq_NaN: "\<not> num_eq a NaN"
  by (cases a) simp_all

text \<open>
  Claim C3, where the code departs from it. NaN is a number outside the interval from 0
  to 1 and differs from every current opacity, NaN included. On every slider the setter
  of \<open>opacity\<close> returns normally with NaN stored (and written to the style of the slider's
  div when there is one), where the message of its own guard asks for a number between 0
  and 1 inclusive: NaN compares neither below 0 nor above 1.
\<close>

theorem opacity_NaN_accepted:
  "wrong_type opacity_p (Number NaN)
   \<and> differs lib opacity_p s (Number NaN)
   \<and> assign lib opacity_p (Number NaN) s
       = Normal (case zs_sliderDiv s of
                   None \<Rightarrow> s\<lparr>zs_opacity := NaN\<rparr>
                 | Some d \<Rightarrow> s\<lparr>zs_opacity := NaN, zs_sliderDiv := Some (style_opacity lib NaN d)\<rparr>)
   \<and> zs_opacity (final_state (assign lib opacity_p (Number NaN) s)) = NaN"
  by (simp add: set_opacity_def num_gt_def num_eq_NaN split: option.splits)

theorem opacity_NaN_accepted_witness:
  "assign plain_lib opacity_p (Number NaN) default_slider
     = Normal (default_slider\<lparr>zs_opacity := NaN\<rparr>)
   \<and> zs_opacity default_slider = Fin (3 / 4)"
  using opacity_NaN_accepted [of plain_lib default_slider]
  by (simp add: default_slider_def)

text \<open>
  Claim C8. Assigning to \<open>alignmentFocus\<close> a Spot \<open>v\<close> that \<open>Spot.equals\<close> does not find
  equal to the current \<open>alignmentFocus\<close> returns normally with \<open>v\<close> stored both as
  \<open>alignmentFocus\<close> and as \<open>alignment\<close>: an alignment other than \<open>v\<close> is overwritten.
\<close>

theorem set_alignmentFocus_overwrites_alignment:
  assumes "\<not> spot_equals lib (zs_alignmentFocus s) (SpotV v)"
  shows "\<not> threw (set_alignmentFocus lib (SpotV v) s)
    \<and> zs_alignmentFocus (final_state (set_alignmentFocus lib (SpotV v) s)) = v
    \<and> zs_alignment (final_state (set_alignmentFocus lib (SpotV v) s)) = v
    \<and> (zs_alignment s \<noteq> v \<longrightarrow>
         zs_alignment (final_state (set_alignmentFocus lib (SpotV v) s)) \<noteq> zs_alignment s)"
  using assms by (simp add: set_alignmentFocus_def realign_fields)

theorem set_alignmentFocus_overwrites_alignment_witness:
  "\<not> threw (set_alignmentFocus plain_lib (SpotV TopLeft) default_slider)
   \<and> zs_alignmentFocus (final_state (set_alignmentFocus plain_lib (SpotV TopLeft) default_slider)) = TopLeft
   \<and> zs_alignment (final_state (set_alignmentFocus plain_lib (SpotV TopLeft) default_slider)) = TopLeft
   \<and> zs_alignment default_slider = BottomRight \<and> BottomRight \<noteq> TopLeft"
  using set_alignmentFocus_overwrites_alignment [of plain_lib default_slider TopLeft]
  by (simp add: default_slider_def plain_lib_def TopLeft_def BottomRight_def)


section \<open>Properties of the class declarations\<close>

text \<open>
  Claim C6, as it fails. The class ZoomSlider is declared without an \<open>extends\<close> clause:
  it is a subclass of none of \<open>go.Link\<close>, \<open>go.Layout\<close>, \<open>go.Tool\<close>.
\<close>

theorem ZoomSlider_extends_nothing:
  "extends ZoomSlider_class \<notin> {Some go_Link, Some go_Layout, Some go_Tool}"
  by simp

text \<open>
  Claim C6, amended. Every class of the repository other than ZoomSlider is declared as a
  subclass of \<open>go.Link\<close>, \<open>go.Layout\<close> or \<open>go.Tool\<close>; ZoomSlider extends no class.
\<close>

theorem components_extend_library_classes:
  "(c \<noteq> ZoomSlider_class \<longrightarrow> extends c \<in> {Some go_Link, Some go_Layout, Some go_Tool})
   \<and> extends ZoomSlider_class = None"
  by (cases c) auto

theorem components_extend_library_classes_witness:
  "BalloonLink_class \<noteq> ZoomSlider_class
   \<and> extends BalloonLink_class \<in> {Some go_Link, Some go_Layout, Some go_Tool}"
  using components_extend_library_classes [of BalloonLink_class] by simp

section \<open>Properties of ArrangingLayout\<close>

lemma set_Set_add: "set (Set_add x xs) = insert x (set xs)"
  by (auto simp: Set_add_def Set_has_def)

lemma set_Set_addAll: "set (Set_addAll ys xs) = set ys \<union> set xs"
  unfolding Set_addAll_def
  by (induction ys arbitrary: xs) (auto simp: set_Set_add)

text \<open>The first pass, one part at a time and then from any two collections.\<close>

lemma split_nonlink_None:
  "split_nonlink lib None p (m, s) =
     (case p of
        Node n \<Rightarrow> if 0 < linksConnected_count lib n then (Set_add p m, s) else (m, Set_add p s)
      | Link l \<Rightarrow> (m, s)
      | Part q \<Rightarrow> (m, Set_add p s))"
  by (cases p) simp_all

lemma fold_split_nonlink_main:
  "(x \<in> set (fst (fold (split_nonlink lib None) coll (m, s)))) =
     (x \<in> set m \<or> (x \<in> set coll \<and> (\<exists>n. x = Node n \<and> 0 < linksConnected_count lib n)))"
proof (induction coll arbitrary: m s)
  case Nil
  show ?case by simp
next
  case (Cons p coll)
  show ?case
  proof (cases p)
    case (Node n)
    show ?thesis
    proof (cases "0 < linksConnected_count lib n")
      case True
      with Node Cons.IH [of "Set_add p m" s] show ?thesis
        by (auto simp: set_Set_add)
    next
      case False
      with Node Cons.IH [of m "Set_add p s"] show ?thesis
        by auto
    qed
  next
    case (Link l)
    with Cons.IH [of m s] show ?thesis by auto
  next
    case (Part q)
    with Cons.IH [of m "Set_add p s"] show ?thesis by auto
  qed
qed

lemma fold_split_nonlink_side:
  "(x \<in> set (snd (fold (split_nonlink lib None) coll (m, s)))) =
     (x \<in> set s \<or> (x \<in> set coll \<and> ((\<exists>n. x = Node n \<and> \<not> 0 < linksConnected_count lib n)
                                     \<or> (\<exists>q. x = Part q))))"
proof (induction coll arbitrary: m s)
  case Nil
  show ?case by simp
next
  case (Cons p coll)
  show ?case
  proof (cases p)
    case (Node n)
    show ?thesis
    proof (cases "0 < linksConnected_count lib n")
      case True
      with Node Cons.IH [of "Set_add p m" s] show ?thesis
        by auto
    next
      case False
      with Node Cons.IH [of m "Set_add p s"] show ?thesis
        by (auto simp: set_Set_add)
    qed
  next
    case (Link l)
    with Cons.IH [of m s] show ?thesis by auto
  next
    case (Part q)
    with Cons.IH [of m "Set_add p s"] show ?thesis by (auto simp: set_Set_add)
  qed
qed

text \<open>The second pass adds Links only, so what it tests of the nodes does not move.\<close>

lemma split_link_eq:
  "split_link lib p (m, s) =
     (case p of
        Link l \<Rightarrow> if joins lib m l then (Set_add p m, s)
                  else if joins lib s l then (m, Set_add p s) else (m, s)
      | _ \<Rightarrow> (m, s))"
proof (cases p)
  case (Link l)
  show ?thesis
  proof (cases "link_fromNode lib l")
    case None
    with Link show ?thesis by (simp add: joins_def)
  next
    case f: (Some f)
    show ?thesis
    proof (cases "link_toNode lib l")
      case None
      with Link f show ?thesis by (simp add: joins_def)
    next
      case t: (Some t)
      with Link f show ?thesis by (simp add: joins_def Set_has_def)
    qed
  qed
qed simp_all

lemma split_link_main:
  "(x \<in> set (fst (split_link lib p (m, s)))) =
     (x \<in> set m \<or> (\<exists>l. x = Link l \<and> p = Link l \<and> joins lib m l))"
  by (cases p) (auto simp: split_link_eq set_Set_add)

lemma split_link_side:
  "(x \<in> set (snd (split_link lib p (m, s)))) =
     (x \<in> set s \<or> (\<exists>l. x = Link l \<and> p = Link l \<and> \<not> joins lib m l \<and> joins lib s l))"
  by (cases p) (auto simp: split_link_eq set_Set_add)

lemma joins_cong:
  "(\<And>n. (Node n \<in> set c') = (Node n \<in> set c)) \<Longrightarrow> joins lib c' l = joins lib c l"
  by (simp add: joins_def)

lemma split_link_joins:
  "joins lib (fst (split_link lib p (m, s))) l = joins lib m l"
  "joins lib (snd (split_link lib p (m, s))) l = joins lib s l"
  by (rule joins_cong, simp add: split_link_main split_link_side)+

lemma fold_split_link:
  "(x \<in> set (fst (fold (split_link lib) coll (m, s)))) =
     (x \<in> set m \<or> (\<exists>l. x = Link l \<and> x \<in> set coll \<and> joins lib m l))
   \<and> (x \<in> set (snd (fold (split_link lib) coll (m, s)))) =
     (x \<in> set s \<or> (\<exists>l. x = Link l \<and> x \<in> set coll \<and> \<not> joins lib m l \<and> joins lib s l))"
proof (induction coll arbitrary: m s)
  case Nil
  show ?case by simp
next
  case (Cons p coll)
  obtain m1 s1 where step: "split_link lib p (m, s) = (m1, s1)"
    by (cases "split_link lib p (m, s)")
  have jm: "joins lib m1 l = joins lib m l" and js: "joins lib s1 l = joins lib s l" for l
    using split_link_joins [of lib p m s l] step by simp_all
  have m1: "(x \<in> set m1) = (x \<in> set m \<or> (\<exists>l. x = Link l \<and> p = Link l \<and> joins lib m l))"
    using split_link_main [of x lib p m s] step by simp
  have s1: "(x \<in> set s1) =
      (x \<in> set s \<or> (\<exists>l. x = Link l \<and> p = Link l \<and> \<not> joins lib m l \<and> joins lib s l))"
    using split_link_side [of x lib p m s] step by simp
  have "fold (split_link lib) (p # coll) (m, s) = fold (split_link lib) coll (m1, s1)"
    by (simp add: step)
  then show ?case
    using Cons.IH [of m1 s1] by (simp only: m1 s1 jm js) auto
qed

text \<open>
  Claim C9. With a null filter and two empty collections to fill, \<open>splitParts\<close> puts
  every part of the collection that is not a Link into exactly one of \<open>maincoll\<close> and
  \<open>sidecoll\<close>: a Node into \<open>maincoll\<close> if and only if it has at least one connected
  link, any other such part into \<open>sidecoll\<close>. A Link of the collection is in \<open>maincoll\<close>
  if and only if it has both a \<open>fromNode\<close> and a \<open>toNode\<close> and both are in \<open>maincoll\<close>,
  in \<open>sidecoll\<close> if and only if it has both and both are in \<open>sidecoll\<close>; so it is in
  neither when its nodes are on different sides or one of them is missing. No part is in
  both collections, and the collections hold parts of the given collection only.
\<close>

theorem splitParts_null_filter:
  assumes "splitParts lib None coll [] [] = (maincoll, sidecoll)"
  shows "(\<forall>n. Node n \<in> set coll \<longrightarrow>
            (Node n \<in> set maincoll \<longleftrightarrow> 0 < linksConnected_count lib n)
          \<and> (Node n \<in> set sidecoll \<longleftrightarrow> \<not> 0 < linksConnected_count lib n))
    \<and> (\<forall>q. Part q \<in> set coll \<longrightarrow> Part q \<in> set sidecoll \<and> Part q \<notin> set maincoll)
    \<and> (\<forall>l. Link l \<in> set coll \<longrightarrow>
            (Link l \<in> set maincoll \<longleftrightarrow>
               (\<exists>f t. link_fromNode lib l = Some f \<and> link_toNode lib l = Some t
                      \<and> Node f \<in> set maincoll \<and> Node t \<in> set maincoll))
          \<and> (Link l \<in> set sidecoll \<longleftrightarrow>
               (\<exists>f t. link_fromNode lib l = Some f \<and> link_toNode lib l = Some t
                      \<and> Node f \<in> set sidecoll \<and> Node t \<in> set sidecoll)))
    \<and> set maincoll \<inter> set sidecoll = {}
    \<and> set maincoll \<union> set sidecoll \<subseteq> set coll"
proof -
  define m1 where "m1 = fst (fold (split_nonlink lib None) coll ([], []))"
  define s1 where "s1 = snd (fold (split_nonlink lib None) coll ([], []))"
  have m1: "(x \<in> set m1) = (x \<in> set coll \<and> (\<exists>n. x = Node n \<and> 0 < linksConnected_count lib n))"
    for x
    unfolding m1_def by (simp add: fold_split_nonlink_main)
  have s1: "(x \<in> set s1) = (x \<in> set coll \<and> ((\<exists>n. x = Node n \<and> \<not> 0 < linksConnected_count lib n)
                                     \<or> (\<exists>q. x = Part q)))" for x
    unfolding s1_def by (simp add: fold_split_nonlink_side)
  have second: "fold (split_link lib) coll (m1, s1) = (maincoll, sidecoll)"
    using assms by (simp add: splitParts_def m1_def s1_def)
  have mc: "(x \<in> set maincoll) = (x \<in> set m1 \<or> (\<exists>l. x = Link l \<and> x \<in> set coll \<and> joins lib m1 l))"
    and sc: "(x \<in> set sidecoll) =
      (x \<in> set s1 \<or> (\<exists>l. x = Link l \<and> x \<in> set coll \<and> \<not> joins lib m1 l \<and> joins lib s1 l))"
    for x
    using fold_split_link [of x lib coll m1 s1] second by simp_all
  have node_m: "(Node n \<in> set maincoll) = (Node n \<in> set coll \<and> 0 < linksConnected_count lib n)"
    and node_s: "(Node n \<in> set sidecoll) = (Node n \<in> set coll \<and> \<not> 0 < linksConnected_count lib n)"
    for n
    by (simp_all add: mc sc m1 s1)
  have part_m: "Part q \<notin> set maincoll" and part_s: "(Part q \<in> set sidecoll) = (Part q \<in> set coll)"
    for q
    by (simp_all add: mc sc m1 s1)
  have jm: "joins lib m1 l = joins lib maincoll l" and js: "joins lib s1 l = joins lib sidecoll l"
    for l
    by (rule joins_cong, simp add: mc sc)+
  have excl: "\<not> (joins lib maincoll l \<and> joins lib sidecoll l)" for l
    unfolding joins_def using node_m node_s by auto
  have link_m: "(Link l \<in> set maincoll) = (Link l \<in> set coll \<and> joins lib maincoll l)"
    and link_s: "(Link l \<in> set sidecoll) = (Link l \<in> set coll \<and> joins lib sidecoll l)"
    for l
    using excl [of l] by (auto simp: mc sc m1 s1 jm js)
  have nodes: "\<forall>n. Node n \<in> set coll \<longrightarrow>
            (Node n \<in> set maincoll \<longleftrightarrow> 0 < linksConnected_count lib n)
          \<and> (Node n \<in> set sidecoll \<longleftrightarrow> \<not> 0 < linksConnected_count lib n)"
    by (simp add: node_m node_s)
  have others: "\<forall>q. Part q \<in> set coll \<longrightarrow> Part q \<in> set sidecoll \<and> Part q \<notin> set maincoll"
    by (simp add: part_m part_s)
  have lks: "\<forall>l. Link l \<in> set coll \<longrightarrow>
            (Link l \<in> set maincoll \<longleftrightarrow>
               (\<exists>f t. link_fromNode lib l = Some f \<and> link_toNode lib l = Some t
                      \<and> Node f \<in> set maincoll \<and> Node t \<in> set maincoll))
          \<and> (Link l \<in> set sidecoll \<longleftrightarrow>
               (\<exists>f t. link_fromNode lib l = Some f \<and> link_toNode lib l = Some t
                      \<and> Node f \<in> set sidecoll \<and> Node t \<in> set sidecoll))"
    by (simp add: link_m link_s joins_def)
  have disj: "set maincoll \<inter> set sidecoll = {}"
  proof -
    have "\<not> (x \<in> set maincoll \<and> x \<in> set sidecoll)" for x
    proof (cases x)
      case (Node n)
      then show ?thesis by (auto simp: node_m node_s)
    next
      case (Link l)
      then show ?thesis using excl [of l] by (simp add: link_m link_s)
    next
      case (Part q)
      then show ?thesis by (simp add: part_m)
    qed
    then show ?thesis by blast
  qed
  have sub: "set maincoll \<union> set sidecoll \<subseteq> set coll"
  proof
    fix x assume x: "x \<in> set maincoll \<union> set sidecoll"
    show "x \<in> set coll"
    proof (cases x)
      case (Node n)
      with x show ?thesis by (auto simp: node_m node_s)
    next
      case (Link l)
      with x show ?thesis by (auto simp: link_m link_s)
    next
      case (Part q)
      with x show ?thesis by (auto simp: part_m part_s)
    qed
  qed
  from nodes others lks disj sub show ?thesis by (intro conjI)
qed

theorem splitParts_null_filter_witness:
  "splitParts small_lib None small_coll [] [] = ([Node 1, Node 2, Link 10], [Node 3, Part 4])
   \<and> Node 1 \<in> set small_coll \<and> Part 4 \<in> set small_coll \<and> Link 10 \<in> set small_coll
   \<and> Link 11 \<in> set small_coll
   \<and> Link 11 \<notin> set [Node 1, Node 2, Link 10] \<and> Link 11 \<notin> set [Node 3, Part 4]"
proof -
  have run: "splitParts small_lib None small_coll [] [] = ([Node 1, Node 2, Link 10], [Node 3, Part 4])"
    by (simp add: splitParts_def small_lib_def small_coll_def Set_add_def Set_has_def)
  from splitParts_null_filter [OF run] show ?thesis
    using run by (simp add: small_coll_def)
qed

section \<open>Properties of BalloonLink\<close>

lemma fig_add_arcs:
  "arcs_with_radius c (fig_segments (pen_fig (fig_add sh st))) =
     (arcs_with_radius c (fig_segments (pen_fig st))
      \<and> (case arc_radii sh of None \<Rightarrow> True | Some r \<Rightarrow> r = (c, c)))"
  by (simp add: fig_add_def arcs_with_radius_def)

lemma start_arcs:
  "arcs_with_radius c (fig_segments (pen_fig (start x y st))) =
     arcs_with_radius c (fig_segments (pen_fig st))"
  by (simp add: start_def)

lemma point_arcs:
  "arcs_with_radius c (fig_segments (pen_fig (point x y v w st))) =
     arcs_with_radius c (fig_segments (pen_fig st))"
  by (simp add: point_def fig_add_arcs)

lemma turn_arcs:
  "arcs_with_radius c (fig_segments (pen_fig (turn c x y st))) =
     arcs_with_radius c (fig_segments (pen_fig st))"
  by (simp add: turn_def fig_add_arcs)

lemma keeps_arcs_basic:
  "keeps_arcs c (start x y)" "keeps_arcs c (point x y v w)" "keeps_arcs c (turn c x y)"
  by (simp_all add: keeps_arcs_def start_arcs point_arcs turn_arcs)

lemma keeps_arcs_steps: "list_all (keeps_arcs c) fs \<Longrightarrow> keeps_arcs c (steps fs)"
  unfolding steps_def
proof (induction fs)
  case Nil
  show ?case by (simp add: keeps_arcs_def)
next
  case (Cons f fs)
  then show ?case by (simp add: keeps_arcs_def)
qed

lemma keeps_arcs_if:
  "keeps_arcs c f \<Longrightarrow> keeps_arcs c g \<Longrightarrow> keeps_arcs c (if b then f else g)"
  by simp

lemma keeps_arcs_outline: "keeps_arcs c (balloon_outline pn bb base c)"
  unfolding balloon_outline_def Let_def
  by (intro keeps_arcs_if keeps_arcs_steps; simp add: keeps_arcs_basic)

lemma close_last_arcs:
  assumes "close_last fig = Inr fig'"
  shows "arcs_with_radius c (fig_segments fig') = arcs_with_radius c (fig_segments fig)"
proof -
  let ?segs = "fig_segments fig"
  from assms have ne: "?segs \<noteq> []"
    by (auto simp: close_last_def split: if_splits)
  with assms have closed:
    "fig_segments fig' = butlast ?segs @ [PathSegment (seg_shape (last ?segs)) True]"
    by (auto simp: close_last_def)
  have "arcs_with_radius c (butlast ?segs @ [last ?segs]) = arcs_with_radius c ?segs"
    using ne by simp
  then show ?thesis
    by (simp add: closed arcs_with_radius_def)
qed

lemma clamp_bounds:
  assumes "c \<noteq> NaN" and "num_le (Fin 0) w" and "num_le (Fin 0) h"
  shows "num_le (Fin 0) (num_min (num_max (Fin 0) c) (num_min (num_div w (Fin 2)) (num_div h (Fin 2))))
    \<and> num_le (num_min (num_max (Fin 0) c) (num_min (num_div w (Fin 2)) (num_div h (Fin 2))))
             (num_min (num_div w (Fin 2)) (num_div h (Fin 2)))"
  using assms by (cases c; cases w; cases h) (auto simp: num_le_def)

lemma base_bound: "b \<noteq> NaN \<Longrightarrow> num_le (Fin 0) (num_max (Fin 0) b)"
  by (cases b) (auto simp: num_le_def)

lemma makeGeometry_arcs:
  assumes "bl_fromNode l = Some n" and "makeGeometry lib l = Inr g"
  shows "\<exists>fig. g = offset lib (num_neg (r_x (bl_routeBounds l))) (num_neg (r_y (bl_routeBounds l)))
                    (Geometry [fig])
      \<and> arcs_with_radius (balloon_corner l (addMargin lib (n_actualBounds n) (n_margin n)))
           (fig_segments fig)"
proof -
  define bb where "bb = addMargin lib (n_actualBounds n) (n_margin n)"
  define c where "c = balloon_corner l bb"
  define st where "st = balloon_outline (balloon_target lib l bb) bb (balloon_base l) c
                     \<lparr>pen_fig = new_PathFigure, prevx = Fin 0, prevy = Fin 0\<rparr>"
  have run: "makeGeometry lib l =
      (case close_last (pen_fig st) of
         Inl e \<Rightarrow> Inl e
       | Inr fig \<Rightarrow> Inr (offset lib (num_neg (r_x (bl_routeBounds l)))
                            (num_neg (r_y (bl_routeBounds l))) (Geometry [fig])))"
    using assms(1) by (simp add: makeGeometry_def Let_def st_def c_def bb_def)
  with assms(2) obtain fig where fig: "close_last (pen_fig st) = Inr fig"
    and g: "g = offset lib (num_neg (r_x (bl_routeBounds l))) (num_neg (r_y (bl_routeBounds l)))
                  (Geometry [fig])"
    by (auto split: sum.splits)
  have "arcs_with_radius c (fig_segments (pen_fig st))"
    using keeps_arcs_outline [of c "balloon_target lib l bb" bb "balloon_base l"]
    unfolding st_def keeps_arcs_def
    by (simp add: new_PathFigure_def arcs_with_radius_def)
  with close_last_arcs [OF fig, of c] have "arcs_with_radius c (fig_segments fig)"
    by simp
  with g show ?thesis
    unfolding c_def bb_def by blast
qed

text \<open>
  Claim C10, as it fails. The setter of \<open>base\<close> accepts NaN as a number, and a stored
  \<open>base\<close> of NaN is not brought up to 0: \<open>Math.max(0, NaN)\<close> is NaN, and NaN is not
  at least 0. A \<open>corner\<close> of NaN likewise gives a corner radius of NaN, outside every
  interval.
\<close>

theorem balloon_NaN_not_clamped:
  "bl_fromNode balloon \<noteq> None
   \<and> set_base (Number NaN) balloon
       = Normal (balloon\<lparr>bl_base := NaN, bl_changed := [(''base'', Fin 15, NaN)]\<rparr>)
   \<and> balloon_base (balloon\<lparr>bl_base := NaN, bl_changed := [(''base'', Fin 15, NaN)]\<rparr>) = NaN
   \<and> \<not> num_le (Fin 0)
         (balloon_base (balloon\<lparr>bl_base := NaN, bl_changed := [(''base'', Fin 15, NaN)]\<rparr>))
   \<and> balloon_corner (balloon\<lparr>bl_corner := NaN\<rparr>) (mk_rect 0 0 100 40) = NaN
   \<and> \<not> num_le (Fin 0) (balloon_corner (balloon\<lparr>bl_corner := NaN\<rparr>) (mk_rect 0 0 100 40))"
  by (simp add: balloon_def set_base_def balloon_base_def balloon_corner_def num_le_def)

lemma turn_draws:
  assumes "(num_eq (prevx st) x \<and> num_gt (prevy st) y)
         \<or> (num_lt (prevx st) x \<and> num_eq (prevy st) y)
         \<or> (num_eq (prevx st) x \<and> num_lt (prevy st) y)
         \<or> (num_gt (prevx st) x \<and> num_eq (prevy st) y)"
  shows "\<exists>px py a cx cy.
           fig_segments (pen_fig (turn c x y st)) =
             fig_segments (pen_fig st)
             @ [PathSegment (Line px py) False, PathSegment (Arc a (Fin 90) cx cy c c) False]"
  using assms by (auto simp: turn_def fig_add_def)

lemma makeGeometry_outline:
  "bl_fromNode l = Some n \<Longrightarrow>
   makeGeometry lib l =
     outline_geometry lib l (addMargin lib (n_actualBounds n) (n_margin n))
       (num_max (Fin 0) (bl_base l))
       (num_min (num_max (Fin 0) (bl_corner l))
          (num_min (num_div (r_width (addMargin lib (n_actualBounds n) (n_margin n))) (Fin 2))
                   (num_div (r_height (addMargin lib (n_actualBounds n) (n_margin n))) (Fin 2))))"
  by (simp add: makeGeometry_def outline_geometry_def balloon_base_def balloon_corner_def Let_def)

text \<open>
  Claim C10, amended. \<open>makeGeometry\<close> does not throw when \<open>fromNode\<close> is null: it
  returns an empty Geometry. Otherwise, with \<open>bb\<close> the bounds of the \<open>fromNode\<close> with
  its margin added, what it returns is the outline about \<open>bb\<close> drawn with the base
  \<open>max(0, base)\<close> and the corner radius
  \<open>min(max(0, corner), min(bb.width / 2, bb.height / 2))\<close>, whatever \<open>base\<close> and
  \<open>corner\<close> are stored. Every turn of the outline at a corner of the rectangle adds a
  line and an arc of a quarter turn with both radii equal to the corner radius, and every
  arc of a geometry returned has these radii. When the stored \<open>corner\<close> is not NaN and
  the width and height of \<open>bb\<close> are at least 0, the corner radius lies between 0 and
  \<open>min(bb.width / 2, bb.height / 2)\<close>; when the stored \<open>base\<close> is not NaN, the base
  drawn with is at least 0. A stored \<open>base\<close> of NaN is drawn with as NaN, and so is a
  stored \<open>corner\<close> of NaN.
\<close>

theorem makeGeometry_clamps:
  "(bl_fromNode l = None \<longrightarrow> makeGeometry lib l = Inr (Geometry []))
   \<and> (bl_fromNode l = Some n \<and> bb = addMargin lib (n_actualBounds n) (n_margin n) \<longrightarrow>
        makeGeometry lib l =
          outline_geometry lib l bb
            (num_max (Fin 0) (bl_base l))
            (num_min (num_max (Fin 0) (bl_corner l))
               (num_min (num_div (r_width bb) (Fin 2)) (num_div (r_height bb) (Fin 2))))
      \<and> (\<forall>g. makeGeometry lib l = Inr g \<longrightarrow>
           (\<exists>fig. g = offset lib (num_neg (r_x (bl_routeBounds l)))
                               (num_neg (r_y (bl_routeBounds l))) (Geometry [fig])
                 \<and> arcs_with_radius
                      (num_min (num_max (Fin 0) (bl_corner l))
                         (num_min (num_div (r_width bb) (Fin 2)) (num_div (r_height bb) (Fin 2))))
                      (fig_segments fig)))
      \<and> (bl_corner l \<noteq> NaN \<and> num_le (Fin 0) (r_width bb) \<and> num_le (Fin 0) (r_height bb)
         \<longrightarrow> num_le (Fin 0)
               (num_min (num_max (Fin 0) (bl_corner l))
                  (num_min (num_div (r_width bb) (Fin 2)) (num_div (r_height bb) (Fin 2))))
           \<and> num_le
               (num_min (num_max (Fin 0) (bl_corner l))
                  (num_min (num_div (r_width bb) (Fin 2)) (num_div (r_height bb) (Fin 2))))
               (num_min (num_div (r_width bb) (Fin 2)) (num_div (r_height bb) (Fin 2))))
      \<and> (bl_base l \<noteq> NaN \<longrightarrow> num_le (Fin 0) (num_max (Fin 0) (bl_base l)))
      \<and> (bl_base l = NaN \<longrightarrow>
           makeGeometry lib l =
             outline_geometry lib l bb NaN
               (num_min (num_max (Fin 0) (bl_corner l))
                  (num_min (num_div (r_width bb) (Fin 2)) (num_div (r_height bb) (Fin 2)))))
      \<and> (bl_corner l = NaN \<longrightarrow>
           makeGeometry lib l = outline_geometry lib l bb (num_max (Fin 0) (bl_base l)) NaN))
   \<and> ((num_eq (prevx st) x \<and> num_gt (prevy st) y)
       \<or> (num_lt (prevx st) x \<and> num_eq (prevy st) y)
       \<or> (num_eq (prevx st) x \<and> num_lt (prevy st) y)
       \<or> (num_gt (prevx st) x \<and> num_eq (prevy st) y) \<longrightarrow>
        (\<exists>px py a cx cy.
           fig_segments (pen_fig (turn c x y st)) =
             fig_segments (pen_fig st)
             @ [PathSegment (Line px py) False, PathSegment (Arc a (Fin 90) cx cy c c) False]))"
proof (intro conjI impI allI)
  assume "bl_fromNode l = None"
  then show "makeGeometry lib l = Inr (Geometry [])"
    by (simp add: makeGeometry_def)
next
  assume "bl_fromNode l = Some n \<and> bb = addMargin lib (n_actualBounds n) (n_margin n)"
  then show "makeGeometry lib l =
          outline_geometry lib l bb
            (num_max (Fin 0) (bl_base l))
            (num_min (num_max (Fin 0) (bl_corner l))
               (num_min (num_div (r_width bb) (Fin 2)) (num_div (r_height bb) (Fin 2))))"
    by (simp add: makeGeometry_outline)
next
  fix g
  assume "bl_fromNode l = Some n \<and> bb = addMargin lib (n_actualBounds n) (n_margin n)"
    and "makeGeometry lib l = Inr g"
  then show "\<exists>fig. g = offset lib (num_neg (r_x (bl_routeBounds l)))
                               (num_neg (r_y (bl_routeBounds l))) (Geometry [fig])
                 \<and> arcs_with_radius
                      (num_min (num_max (Fin 0) (bl_corner l))
                         (num_min (num_div (r_width bb) (Fin 2)) (num_div (r_height bb) (Fin 2))))
                      (fig_segments fig)"
    using makeGeometry_arcs [of l n lib g] by (simp add: balloon_corner_def)
next
  assume "bl_corner l \<noteq> NaN \<and> num_le (Fin 0) (r_width bb) \<and> num_le (Fin 0) (r_height bb)"
  then have b: "num_le (Fin 0)
               (num_min (num_max (Fin 0) (bl_corner l))
                  (num_min (num_div (r_width bb) (Fin 2)) (num_div (r_height bb) (Fin 2))))
           \<and> num_le
               (num_min (num_max (Fin 0) (bl_corner l))
                  (num_min (num_div (r_width bb) (Fin 2)) (num_div (r_height bb) (Fin 2))))
               (num_min (num_div (r_width bb) (Fin 2)) (num_div (r_height bb) (Fin 2)))"
    by (intro clamp_bounds) simp_all
  from b show "num_le (Fin 0)
               (num_min (num_max (Fin 0) (bl_corner l))
                  (num_min (num_div (r_width bb) (Fin 2)) (num_div (r_height bb) (Fin 2))))"
    by simp
  from b show "num_le
               (num_min (num_max (Fin 0) (bl_corner l))
                  (num_min (num_div (r_width bb) (Fin 2)) (num_div (r_height bb) (Fin 2))))
               (num_min (num_div (r_width bb) (Fin 2)) (num_div (r_height bb) (Fin 2)))"
    by simp
next
  assume "bl_base l \<noteq> NaN"
  then show "num_le (Fin 0) (num_max (Fin 0) (bl_base l))"
    by (rule base_bound)
next
  assume "bl_fromNode l = Some n \<and> bb = addMargin lib (n_actualBounds n) (n_margin n)"
    and "bl_base l = NaN"
  then show "makeGeometry lib l =
             outline_geometry lib l bb NaN
               (num_min (num_max (Fin 0) (bl_corner l))
                  (num_min (num_div (r_width bb) (Fin 2)) (num_div (r_height bb) (Fin 2))))"
    by (simp add: makeGeometry_outline)
next
  assume "bl_fromNode l = Some n \<and> bb = addMargin lib (n_actualBounds n) (n_margin n)"
    and "bl_corner l = NaN"
  then show "makeGeometry lib l = outline_geometry lib l bb (num_max (Fin 0) (bl_base l)) NaN"
    by (simp add: makeGeometry_outline)
next
  assume "(num_eq (prevx st) x \<and> num_gt (prevy st) y)
       \<or> (num_lt (prevx st) x \<and> num_eq (prevy st) y)
       \<or> (num_eq (prevx st) x \<and> num_lt (prevy st) y)
       \<or> (num_gt (prevx st) x \<and> num_eq (prevy st) y)"
  then show "\<exists>px py a cx cy.
           fig_segments (pen_fig (turn c x y st)) =
             fig_segments (pen_fig st)
             @ [PathSegment (Line px py) False, PathSegment (Arc a (Fin 90) cx cy c c) False]"
    by (rule turn_draws)
qed

lemma clamped_outline:
  "outline_geometry still_lib clamped_balloon (mk_rect 0 0 100 40) (Fin 0) (Fin 20) =
     Inr (Geometry
       [\<lparr>fig_startX = Fin 100, fig_startY = Fin 40,
         fig_segments =
           [PathSegment (Line (Fin 200) (Fin 100)) False,
            PathSegment (Line (Fin 100) (Fin 40)) False,
            PathSegment (Line (Fin 20) (Fin 40)) False,
            PathSegment (Arc (Fin 90) (Fin 90) (Fin 20) (Fin 20) (Fin 20) (Fin 20)) False,
            PathSegment (Line (Fin 0) (Fin 20)) False,
            PathSegment (Arc (Fin 180) (Fin 90) (Fin 20) (Fin 20) (Fin 20) (Fin 20)) False,
            PathSegment (Line (Fin 80) (Fin 0)) False,
            PathSegment (Arc (Fin 270) (Fin 90) (Fin 80) (Fin 20) (Fin 20) (Fin 20)) True]\<rparr>])"
  by (simp add: outline_geometry_def still_lib_def clamped_balloon_def balloon_def mk_rect_def
      balloon_target_def balloon_outline_def Let_def
      steps_def start_def point_def turn_def fig_add_def close_last_def new_PathFigure_def
      num_sub_def num_gt_def)

lemma clamped_balloon_fields:
  "bl_fromNode clamped_balloon = Some comment_node"
  "addMargin still_lib (n_actualBounds comment_node) (n_margin comment_node) = mk_rect 0 0 100 40"
  "num_max (Fin 0) (bl_base clamped_balloon) = Fin 0"
  "num_min (num_max (Fin 0) (bl_corner clamped_balloon))
     (num_min (num_div (r_width (mk_rect 0 0 100 40)) (Fin 2))
              (num_div (r_height (mk_rect 0 0 100 40)) (Fin 2))) = Fin 20"
  by (simp_all add: clamped_balloon_def balloon_def still_lib_def comment_node_def mk_rect_def)

theorem makeGeometry_clamps_witness:
  "bl_fromNode clamped_balloon = Some comment_node
   \<and> bl_base clamped_balloon = Fin (- 5) \<and> bl_corner clamped_balloon = Fin 100
   \<and> makeGeometry still_lib clamped_balloon =
       Inr (Geometry
         [\<lparr>fig_startX = Fin 100, fig_startY = Fin 40,
           fig_segments =
             [PathSegment (Line (Fin 200) (Fin 100)) False,
              PathSegment (Line (Fin 100) (Fin 40)) False,
              PathSegment (Line (Fin 20) (Fin 40)) False,
              PathSegment (Arc (Fin 90) (Fin 90) (Fin 20) (Fin 20) (Fin 20) (Fin 20)) False,
              PathSegment (Line (Fin 0) (Fin 20)) False,
              PathSegment (Arc (Fin 180) (Fin 90) (Fin 20) (Fin 20) (Fin 20) (Fin 20)) False,
              PathSegment (Line (Fin 80) (Fin 0)) False,
              PathSegment (Arc (Fin 270) (Fin 90) (Fin 80) (Fin 20) (Fin 20) (Fin 20)) True]\<rparr>])
   \<and> num_le (Fin 0) (Fin 20) \<and> num_le (Fin 20) (Fin 20)
   \<and> makeGeometry still_lib (clamped_balloon\<lparr>bl_fromNode := None\<rparr>) = Inr (Geometry [])"
proof -
  note clamps = makeGeometry_clamps [where l = clamped_balloon and lib = still_lib
      and n = comment_node and bb = "mk_rect 0 0 100 40"]
  have pre: "bl_fromNode clamped_balloon = Some comment_node
      \<and> mk_rect 0 0 100 40
          = addMargin still_lib (n_actualBounds comment_node) (n_margin comment_node)"
    by (simp add: clamped_balloon_fields)
  from clamps [THEN conjunct2, THEN conjunct1, THEN mp, OF pre, THEN conjunct1]
  have drawn: "makeGeometry still_lib clamped_balloon =
      outline_geometry still_lib clamped_balloon (mk_rect 0 0 100 40) (Fin 0) (Fin 20)"
    unfolding clamped_balloon_fields .
  have none: "makeGeometry still_lib (clamped_balloon\<lparr>bl_fromNode := None\<rparr>) = Inr (Geometry [])"
    using makeGeometry_clamps [where l = "clamped_balloon\<lparr>bl_fromNode := None\<rparr>"
        and lib = still_lib]
    by simp
  from drawn none show ?thesis
    by (simp add: clamped_outline clamped_balloon_fields(1))
      (simp add: clamped_balloon_def num_le_def)
qed

section \<open>Properties of DoubleTreeLayout\<close>

lemma collect_roots_fold:
  "set (fold (\<lambda>p roots. case p of
                        Node n \<Rightarrow> if findTreeParentNode lib w n = None then Set_add n roots
                                  else roots
                      | _ \<Rightarrow> roots) coll acc)
     = set acc \<union> {n. Node n \<in> set coll \<and> findTreeParentNode lib w n = None}"
proof (induction coll arbitrary: acc)
  case Nil
  show ?case by simp
next
  case (Cons p coll)
  show ?case
    by (cases p) (auto simp: Cons.IH set_Set_add)
qed

lemma set_collect_roots:
  "set (collect_roots lib w coll) = {n. Node n \<in> set coll \<and> findTreeParentNode lib w n = None}"
  by (simp add: collect_roots_def collect_roots_fold)

lemma first_Node_Cons:
  "(\<exists>ps qs. p # coll = ps @ Node n # qs \<and> (\<forall>k. Node k \<notin> set ps)) \<longleftrightarrow>
     (p = Node n \<or> ((\<forall>k. p \<noteq> Node k)
                     \<and> (\<exists>ps qs. coll = ps @ Node n # qs \<and> (\<forall>k. Node k \<notin> set ps))))"
proof
  assume "\<exists>ps qs. p # coll = ps @ Node n # qs \<and> (\<forall>k. Node k \<notin> set ps)"
  then obtain ps qs where e: "p # coll = ps @ Node n # qs" and no: "\<forall>k. Node k \<notin> set ps"
    by blast
  show "p = Node n \<or> ((\<forall>k. p \<noteq> Node k)
                     \<and> (\<exists>ps qs. coll = ps @ Node n # qs \<and> (\<forall>k. Node k \<notin> set ps)))"
  proof (cases ps)
    case Nil
    with e show ?thesis by simp
  next
    case (Cons a ps')
    with e no have "p = a" "coll = ps' @ Node n # qs" "\<forall>k. Node k \<notin> set ps'" "\<forall>k. a \<noteq> Node k"
      by auto
    then show ?thesis by blast
  qed
next
  assume "p = Node n \<or> ((\<forall>k. p \<noteq> Node k)
                     \<and> (\<exists>ps qs. coll = ps @ Node n # qs \<and> (\<forall>k. Node k \<notin> set ps)))"
  then show "\<exists>ps qs. p # coll = ps @ Node n # qs \<and> (\<forall>k. Node k \<notin> set ps)"
  proof
    assume "p = Node n"
    then have "p # coll = [] @ Node n # coll \<and> (\<forall>k. Node k \<notin> set [])" by simp
    then show ?thesis by blast
  next
    assume "(\<forall>k. p \<noteq> Node k)
                     \<and> (\<exists>ps qs. coll = ps @ Node n # qs \<and> (\<forall>k. Node k \<notin> set ps))"
    then obtain ps qs where "\<forall>k. p \<noteq> Node k" "coll = ps @ Node n # qs" "\<forall>k. Node k \<notin> set ps"
      by blast
    then have "p # coll = (p # ps) @ Node n # qs \<and> (\<forall>k. Node k \<notin> set (p # ps))" by auto
    then show ?thesis by blast
  qed
qed

lemma first_Node_first:
  "first_Node coll = Some n \<longleftrightarrow>
     (\<exists>ps qs. coll = ps @ Node n # qs \<and> (\<forall>k. Node k \<notin> set ps))"
proof (induction coll)
  case Nil
  show ?case by simp
next
  case (Cons p coll)
  show ?case
    unfolding first_Node_Cons using Cons.IH by (cases p) auto
qed

lemma place_child_sides:
  "set (fst (place_child lib lay w c (l, r))) =
     (if dt_directionFunction lay w c then set l else set l \<union> subtree_with_link lib w c)"
  "set (snd (place_child lib lay w c (l, r))) =
     (if dt_directionFunction lay w c then set r \<union> subtree_with_link lib w c else set r)"
  by (auto simp: place_child_def isPositiveDirection_def subtree_with_link_def Let_def
      set_Set_add set_Set_addAll split: option.splits)

lemma fold_place_child:
  "set (fst (fold (place_child lib lay w) cs (l, r))) =
     set l \<union> (\<Union>c \<in> {c \<in> set cs. \<not> dt_directionFunction lay w c}. subtree_with_link lib w c)
   \<and> set (snd (fold (place_child lib lay w) cs (l, r))) =
     set r \<union> (\<Union>c \<in> {c \<in> set cs. dt_directionFunction lay w c}. subtree_with_link lib w c)"
proof (induction cs arbitrary: l r)
  case Nil
  show ?case by simp
next
  case (Cons c cs)
  obtain l1 r1 where step: "place_child lib lay w c (l, r) = (l1, r1)"
    by (cases "place_child lib lay w c (l, r)")
  have l1: "set l1 = (if dt_directionFunction lay w c then set l
                      else set l \<union> subtree_with_link lib w c)"
    and r1: "set r1 = (if dt_directionFunction lay w c then set r \<union> subtree_with_link lib w c
                       else set r)"
    using place_child_sides [of lib lay w c l r] step by simp_all
  have "fold (place_child lib lay w) (c # cs) (l, r) = fold (place_child lib lay w) cs (l1, r1)"
    by (simp add: step)
  then show ?case
    using Cons.IH [of l1 r1] by (simp only: l1 r1) auto
qed

lemma distinct_Set_add: "distinct xs \<Longrightarrow> distinct (Set_add x xs)"
  by (simp add: Set_add_def Set_has_def)

lemma distinct_collect_roots_fold:
  "distinct acc \<Longrightarrow>
   distinct (fold (\<lambda>p roots. case p of
                        Node n \<Rightarrow> if findTreeParentNode lib w n = None then Set_add n roots
                                  else roots
                      | _ \<Rightarrow> roots) coll acc)"
proof (induction coll arbitrary: acc)
  case Nil
  then show ?case by simp
next
  case (Cons p coll)
  then show ?case
    by (cases p) (simp_all add: distinct_Set_add)
qed

lemma distinct_collect_roots: "distinct (collect_roots lib w coll)"
  by (simp add: collect_roots_def distinct_collect_roots_fold)

text \<open>
  Claim C5. The roots that \<open>separatePartsForLayout\<close> finds are the nodes of the
  collection without a tree parent, each once. With exactly one, that node is the root;
  with none, the first Node of the collection is (and nothing is done when the collection
  has no Node). With several, the root is the Node that \<open>new go.Node()\<close> returns, placed
  at the origin, and for each of the roots in turn one Link is made by \<open>new go.Link()\<close>
  and joined to both: from the new root to the old one when the diagram's
  \<open>isTreePathToChildren\<close> is true or there is no diagram, from the old root to the new
  one when it is false. Whenever there is a root, the call adds to \<open>leftParts\<close> the root
  and, for every tree child of the root on which the direction function is false, the
  parts of the child's subtree and the child's parent link, and to \<open>rightParts\<close> the root
  and the same for every child on which it is true; nothing else.
\<close>

theorem separatePartsForLayout_sides:
  "set (collect_roots lib w coll) = {n. Node n \<in> set coll \<and> findTreeParentNode lib w n = None}
   \<and> distinct (collect_roots lib w coll)
   \<and> (collect_roots lib w coll = [r1] \<longrightarrow> choose_root lib lay w coll = (Some r1, w))
   \<and> (collect_roots lib w coll = [] \<longrightarrow> choose_root lib lay w coll = (first_Node coll, w))
   \<and> (first_Node coll = Some n \<longleftrightarrow>
        (\<exists>ps qs. coll = ps @ Node n # qs \<and> (\<forall>k. Node k \<notin> set ps)))
   \<and> (2 \<le> length (collect_roots lib w coll)
        \<and> dt_diagram_isTreePathToChildren lay \<noteq> Some False \<longrightarrow>
        choose_root lib lay w coll =
          (Some (fst (new_Node lib w)),
           fold (\<lambda>child w1.
                   set_toNode lib (fst (new_Link lib w1)) child
                     (set_fromNode lib (fst (new_Link lib w1)) (fst (new_Node lib w))
                        (snd (new_Link lib w1))))
                (collect_roots lib w coll)
                (set_location lib (fst (new_Node lib w)) (Point (Fin 0) (Fin 0))
                   (snd (new_Node lib w)))))
   \<and> (2 \<le> length (collect_roots lib w coll)
        \<and> dt_diagram_isTreePathToChildren lay = Some False \<longrightarrow>
        choose_root lib lay w coll =
          (Some (fst (new_Node lib w)),
           fold (\<lambda>child w1.
                   set_toNode lib (fst (new_Link lib w1)) (fst (new_Node lib w))
                     (set_fromNode lib (fst (new_Link lib w1)) child
                        (snd (new_Link lib w1))))
                (collect_roots lib w coll)
                (set_location lib (fst (new_Node lib w)) (Point (Fin 0) (Fin 0))
                   (snd (new_Node lib w)))))
   \<and> (choose_root lib lay w coll = (None, w') \<longrightarrow>
        separatePartsForLayout lib lay w coll leftParts rightParts = (w', leftParts, rightParts))
   \<and> (choose_root lib lay w coll = (Some r, w') \<longrightarrow>
        (\<exists>left1 right1.
           separatePartsForLayout lib lay w coll leftParts rightParts = (w', left1, right1)
           \<and> Node r \<in> set left1 \<and> Node r \<in> set right1
           \<and> set left1 =
               set leftParts \<union> {Node r}
               \<union> (\<Union>c \<in> {c \<in> set (findTreeChildrenNodes lib w' r).
                             \<not> dt_directionFunction lay w' c}.
                    subtree_with_link lib w' c)
           \<and> set right1 =
               set rightParts \<union> {Node r}
               \<union> (\<Union>c \<in> {c \<in> set (findTreeChildrenNodes lib w' r).
                             dt_directionFunction lay w' c}.
                    subtree_with_link lib w' c)))"
proof (intro conjI impI)
  show "set (collect_roots lib w coll) = {n. Node n \<in> set coll \<and> findTreeParentNode lib w n = None}"
    by (rule set_collect_roots)
  show "distinct (collect_roots lib w coll)"
    by (rule distinct_collect_roots)
  show "first_Node coll = Some n \<longleftrightarrow>
        (\<exists>ps qs. coll = ps @ Node n # qs \<and> (\<forall>k. Node k \<notin> set ps))"
    by (rule first_Node_first)
next
  assume "collect_roots lib w coll = [r1]"
  then show "choose_root lib lay w coll = (Some r1, w)"
    by (simp add: choose_root_def)
next
  assume "collect_roots lib w coll = []"
  then show "choose_root lib lay w coll = (first_Node coll, w)"
    by (simp add: choose_root_def)
next
  assume several: "2 \<le> length (collect_roots lib w coll)
        \<and> dt_diagram_isTreePathToChildren lay \<noteq> Some False"
  then have forwards:
    "(case dt_diagram_isTreePathToChildren lay of Some b \<Rightarrow> b | None \<Rightarrow> True) = True"
    by (cases "dt_diagram_isTreePathToChildren lay") auto
  have each: "link_to_root lib True d =
      (\<lambda>child w1. set_toNode lib (fst (new_Link lib w1)) child
                     (set_fromNode lib (fst (new_Link lib w1)) d (snd (new_Link lib w1))))" for d
    by (intro ext) (simp add: link_to_root_def split: prod.splits)
  from several show "choose_root lib lay w coll =
          (Some (fst (new_Node lib w)),
           fold (\<lambda>child w1.
                   set_toNode lib (fst (new_Link lib w1)) child
                     (set_fromNode lib (fst (new_Link lib w1)) (fst (new_Node lib w))
                        (snd (new_Link lib w1))))
                (collect_roots lib w coll)
                (set_location lib (fst (new_Node lib w)) (Point (Fin 0) (Fin 0))
                   (snd (new_Node lib w))))"
    unfolding each [symmetric]
    by (auto simp: choose_root_def Let_def forwards split: prod.splits)
next
  assume several: "2 \<le> length (collect_roots lib w coll)
        \<and> dt_diagram_isTreePathToChildren lay = Some False"
  have each: "link_to_root lib False d =
      (\<lambda>child w1. set_toNode lib (fst (new_Link lib w1)) d
                     (set_fromNode lib (fst (new_Link lib w1)) child (snd (new_Link lib w1))))" for d
    by (intro ext) (simp add: link_to_root_def split: prod.splits)
  from several show "choose_root lib lay w coll =
          (Some (fst (new_Node lib w)),
           fold (\<lambda>child w1.
                   set_toNode lib (fst (new_Link lib w1)) (fst (new_Node lib w))
                     (set_fromNode lib (fst (new_Link lib w1)) child
                        (snd (new_Link lib w1))))
                (collect_roots lib w coll)
                (set_location lib (fst (new_Node lib w)) (Point (Fin 0) (Fin 0))
                   (snd (new_Node lib w))))"
    unfolding each [symmetric]
    by (auto simp: choose_root_def Let_def split: prod.splits)
next
  assume "choose_root lib lay w coll = (None, w')"
  then show "separatePartsForLayout lib lay w coll leftParts rightParts = (w', leftParts, rightParts)"
    by (simp add: separatePartsForLayout_def)
next
  assume root: "choose_root lib lay w coll = (Some r, w')"
  define lr where "lr = fold (place_child lib lay w') (findTreeChildrenNodes lib w' r)
                          (Set_add (Node r) leftParts, Set_add (Node r) rightParts)"
  have run: "separatePartsForLayout lib lay w coll leftParts rightParts = (w', fst lr, snd lr)"
    using root by (simp add: separatePartsForLayout_def lr_def Let_def)
  have sides:
    "set (fst lr) = set leftParts \<union> {Node r}
               \<union> (\<Union>c \<in> {c \<in> set (findTreeChildrenNodes lib w' r).
                             \<not> dt_directionFunction lay w' c}.
                    subtree_with_link lib w' c)"
    "set (snd lr) = set rightParts \<union> {Node r}
               \<union> (\<Union>c \<in> {c \<in> set (findTreeChildrenNodes lib w' r).
                             dt_directionFunction lay w' c}.
                    subtree_with_link lib w' c)"
    using fold_place_child [of lib lay w' "findTreeChildrenNodes lib w' r"
        "Set_add (Node r) leftParts" "Set_add (Node r) rightParts"]
    unfolding lr_def by (simp_all add: set_Set_add)
  then have "Node r \<in> set (fst lr)" "Node r \<in> set (snd lr)"
    by simp_all
  with run sides show "\<exists>left1 right1.
           separatePartsForLayout lib lay w coll leftParts rightParts = (w', left1, right1)
           \<and> Node r \<in> set left1 \<and> Node r \<in> set right1
           \<and> set left1 =
               set leftParts \<union> {Node r}
               \<union> (\<Union>c \<in> {c \<in> set (findTreeChildrenNodes lib w' r).
                             \<not> dt_directionFunction lay w' c}.
                    subtree_with_link lib w' c)
           \<and> set right1 =
               set rightParts \<union> {Node r}
               \<union> (\<Union>c \<in> {c \<in> set (findTreeChildrenNodes lib w' r).
                             dt_directionFunction lay w' c}.
                    subtree_with_link lib w' c)"
    by blast
qed

lemma toy_roots: "collect_roots toy_lib toy_world toy_coll = [0]"
  by (simp add: collect_roots_def toy_lib_def toy_world_def toy_coll_def parent_link_def
      Set_add_def Set_has_def)

lemma toy_two_roots: "collect_roots toy_lib toy_world [Node 5, Node 6] = [5, 6]"
  by (simp add: collect_roots_def toy_lib_def toy_world_def parent_link_def
      Set_add_def Set_has_def)

lemma toy_run:
  "separatePartsForLayout toy_lib toy_layout toy_world toy_coll [] [] =
     (toy_world, [Node 0, Node 1, Link 10, Node 3, Link 12], [Node 0, Node 2, Link 11])"
  by code_simp

lemma toy_calls:
  "new_Node toy_lib toy_world = (20, ([(10, 0, 1), (11, 0, 2), (12, 0, 3)], 21))"
  "dt_diagram_isTreePathToChildren toy_layout = Some True"
  "dt_diagram_isTreePathToChildren toy_backwards = Some False"
  by (simp_all add: toy_lib_def toy_world_def toy_layout_def toy_backwards_def)

lemma toy_links:
  "fold (\<lambda>child w1.
           set_toNode toy_lib (fst (new_Link toy_lib w1)) child
             (set_fromNode toy_lib (fst (new_Link toy_lib w1)) 20 (snd (new_Link toy_lib w1))))
        [5, 6]
        (set_location toy_lib 20 (Point (Fin 0) (Fin 0)) ([(10, 0, 1), (11, 0, 2), (12, 0, 3)], 21))
     = ([(10, 0, 1), (11, 0, 2), (12, 0, 3), (21, 20, 5), (22, 20, 6)], 23)"
  "fold (\<lambda>child w1.
           set_toNode toy_lib (fst (new_Link toy_lib w1)) 20
             (set_fromNode toy_lib (fst (new_Link toy_lib w1)) child (snd (new_Link toy_lib w1))))
        [5, 6]
        (set_location toy_lib 20 (Point (Fin 0) (Fin 0)) ([(10, 0, 1), (11, 0, 2), (12, 0, 3)], 21))
     = ([(10, 0, 1), (11, 0, 2), (12, 0, 3), (21, 5, 20), (22, 6, 20)], 23)"
  by (simp_all add: toy_lib_def)

theorem separatePartsForLayout_sides_witness:
  "collect_roots toy_lib toy_world toy_coll = [0]
   \<and> choose_root toy_lib toy_layout toy_world toy_coll = (Some 0, toy_world)
   \<and> separatePartsForLayout toy_lib toy_layout toy_world toy_coll [] [] =
       (toy_world, [Node 0, Node 1, Link 10, Node 3, Link 12], [Node 0, Node 2, Link 11])
   \<and> set [Node 0, Node 2, Link 11] =
       {Node 0} \<union> (\<Union>c \<in> {c \<in> set (findTreeChildrenNodes toy_lib toy_world 0).
                               dt_directionFunction toy_layout toy_world c}.
                      subtree_with_link toy_lib toy_world c)
   \<and> 2 \<le> length (collect_roots toy_lib toy_world [Node 5, Node 6])
   \<and> dt_diagram_isTreePathToChildren toy_layout \<noteq> Some False
   \<and> choose_root toy_lib toy_layout toy_world [Node 5, Node 6] =
       (Some 20, ([(10, 0, 1), (11, 0, 2), (12, 0, 3), (21, 20, 5), (22, 20, 6)], 23))
   \<and> dt_diagram_isTreePathToChildren toy_backwards = Some False
   \<and> choose_root toy_lib toy_backwards toy_world [Node 5, Node 6] =
       (Some 20, ([(10, 0, 1), (11, 0, 2), (12, 0, 3), (21, 5, 20), (22, 6, 20)], 23))"
proof -
  note thm1 = separatePartsForLayout_sides [where lib = toy_lib and w = toy_world
      and coll = toy_coll and ?r1.0 = 0 and lay = toy_layout and w' = toy_world and r = 0
      and n = 0 and leftParts = "[]" and rightParts = "[]"]
  note thm2 = separatePartsForLayout_sides [where lib = toy_lib and w = toy_world
      and coll = "[Node 5, Node 6]" and ?r1.0 = 0 and lay = toy_layout and w' = toy_world
      and r = 0 and n = 5 and leftParts = "[]" and rightParts = "[]"]
  note thm3 = separatePartsForLayout_sides [where lib = toy_lib and w = toy_world
      and coll = "[Node 5, Node 6]" and ?r1.0 = 0 and lay = toy_backwards and w' = toy_world
      and r = 0 and n = 5 and leftParts = "[]" and rightParts = "[]"]
  have root: "choose_root toy_lib toy_layout toy_world toy_coll = (Some 0, toy_world)"
    using thm1 toy_roots by simp
  with thm1 toy_run have right: "set [Node 0, Node 2, Link 11] =
       {Node 0} \<union> (\<Union>c \<in> {c \<in> set (findTreeChildrenNodes toy_lib toy_world 0).
                               dt_directionFunction toy_layout toy_world c}.
                      subtree_with_link toy_lib toy_world c)"
    by simp
  have two: "2 \<le> length (collect_roots toy_lib toy_world [Node 5, Node 6])"
    by (simp add: toy_two_roots)
  have forwards: "choose_root toy_lib toy_layout toy_world [Node 5, Node 6] =
       (Some 20, ([(10, 0, 1), (11, 0, 2), (12, 0, 3), (21, 20, 5), (22, 20, 6)], 23))"
  proof -
    have pre: "2 \<le> length (collect_roots toy_lib toy_world [Node 5, Node 6])
        \<and> dt_diagram_isTreePathToChildren toy_layout \<noteq> Some False"
      using two by (simp add: toy_calls)
    from thm2 [THEN conjunct2, THEN conjunct2, THEN conjunct2, THEN conjunct2, THEN conjunct2,
        THEN conjunct1, THEN mp, OF pre]
    show ?thesis
      unfolding toy_two_roots toy_calls(1) fst_conv snd_conv toy_links .
  qed
  have backwards: "choose_root toy_lib toy_backwards toy_world [Node 5, Node 6] =
       (Some 20, ([(10, 0, 1), (11, 0, 2), (12, 0, 3), (21, 5, 20), (22, 6, 20)], 23))"
  proof -
    have pre: "2 \<le> length (collect_roots toy_lib toy_world [Node 5, Node 6])
        \<and> dt_diagram_isTreePathToChildren toy_backwards = Some False"
      using two by (simp add: toy_calls)
    from thm3 [THEN conjunct2, THEN conjunct2, THEN conjunct2, THEN conjunct2, THEN conjunct2,
        THEN conjunct2, THEN conjunct1, THEN mp, OF pre]
    show ?thesis
      unfolding toy_two_roots toy_calls(1) fst_conv snd_conv toy_links .
  qed
  from toy_roots root toy_run right two forwards backwards show ?thesis
    by (simp add: toy_calls)
qed

section \<open>Properties of SpiralLayout\<close>

lemma place_vertex_described:
  "place_vertex lib lay net origin rad link vert angle st = (st1, nextvert, angle1) \<Longrightarrow>
   involute rad angle (group_offset lib net link vert) = (x, y) \<Longrightarrow>
     pl_center st1 = (pl_center st)
                       (vert := Point (num_add x (point_x origin)) (num_add y (point_y origin)))
   \<and> nextvert = (case v_destinationEdges_first (net_vertex net vert) of
                   None \<Rightarrow> None
                 | Some e \<Rightarrow> e_toVertex (net_edge net e))
   \<and> angle1 = (case nextvert of
                 None \<Rightarrow> angle
               | Some nv \<Rightarrow> next_angle lay net vert nv x y angle)"
  unfolding place_vertex_def involute_def group_offset_def next_angle_def Let_def
  by (auto split: option.splits if_splits)

lemma place_chain_on_chain:
  assumes "chain_from net (v_destinationEdges_first (net_vertex net v)) rest"
  shows "\<exists>st'. place_chain lib lay net origin rad link (Some v) angle st = Some st'
       \<and> pl_center st' =
           fold (\<lambda>(v, c) f. f(v := c))
             (spiral_centers lib lay net origin rad angle
                (map (\<lambda>(l1, v1). (link, v1)) ((l, v) # rest)))
             (pl_center st)"
  using assms
proof (induction rest arbitrary: l v angle st)
  case Nil
  obtain st1 nextvert angle1 where
    pv: "place_vertex lib lay net origin rad link v angle st = (st1, nextvert, angle1)"
    by (cases "place_vertex lib lay net origin rad link v angle st")
  obtain x y where xy: "involute rad angle (group_offset lib net link v) = (x, y)"
    by (cases "involute rad angle (group_offset lib net link v)")
  from Nil.prems have "nextvert = None"
    using place_vertex_described [OF pv xy] by (auto split: option.splits)
  then have run: "place_chain lib lay net origin rad link (Some v) angle st = Some st1"
    by (subst place_chain.simps) (simp add: pv place_chain.simps)
  have "pl_center st1 = (pl_center st)
                       (v := Point (num_add x (point_x origin)) (num_add y (point_y origin)))"
    using place_vertex_described [OF pv xy] by simp
  with run xy show ?case
    by (simp add: fun_upd_def)
next
  case (Cons lv rest)
  obtain l1 v1 where lv: "lv = (l1, v1)" by (cases lv)
  obtain st1 nextvert angle1 where
    pv: "place_vertex lib lay net origin rad link v angle st = (st1, nextvert, angle1)"
    by (cases "place_vertex lib lay net origin rad link v angle st")
  obtain x y where xy: "involute rad angle (group_offset lib net link v) = (x, y)"
    by (cases "involute rad angle (group_offset lib net link v)")
  from Cons.prems lv obtain e where
    e: "v_destinationEdges_first (net_vertex net v) = Some e"
       "e_toVertex (net_edge net e) = Some v1"
    and rest: "chain_from net (v_destinationEdges_first (net_vertex net v1)) rest"
    by (auto split: option.splits)
  from e have nv: "nextvert = Some v1" and a1: "angle1 = next_angle lay net v v1 x y angle"
    using place_vertex_described [OF pv xy] by simp_all
  have c1: "pl_center st1 = (pl_center st)
                       (v := Point (num_add x (point_x origin)) (num_add y (point_y origin)))"
    using place_vertex_described [OF pv xy] by simp
  from Cons.IH [OF rest, of angle1 st1 l1] obtain st' where
    st': "place_chain lib lay net origin rad link (Some v1) angle1 st1 = Some st'"
    and centers: "pl_center st' =
           fold (\<lambda>(v, c) f. f(v := c))
             (spiral_centers lib lay net origin rad angle1
                (map (\<lambda>(l1, v1). (link, v1)) ((l1, v1) # rest)))
             (pl_center st1)"
    by blast
  have run: "place_chain lib lay net origin rad link (Some v) angle st = Some st'"
    by (subst place_chain.simps) (simp add: pv nv st')
  have "spiral_centers lib lay net origin rad angle
          (map (\<lambda>(l1, v1). (link, v1)) ((l, v) # lv # rest)) =
      (v, Point (num_add x (point_x origin)) (num_add y (point_y origin)))
        # spiral_centers lib lay net origin rad angle1
            (map (\<lambda>(l1, v1). (link, v1)) ((l1, v1) # rest))"
    using xy a1 lv by simp
  with run centers c1 show ?case
    by (simp add: fun_upd_def)
qed

lemma spiral_centers_cong:
  assumes "\<forall>(l1, v1) \<in> set chain. group_offset lib net link v1 = group_offset lib net l1 v1"
  shows "spiral_centers lib lay net origin rad angle (map (\<lambda>(l1, v1). (link, v1)) chain)
       = spiral_centers lib lay net origin rad angle chain"
  using assms
proof (induction chain arbitrary: angle)
  case Nil
  show ?case by simp
next
  case (Cons lv chain)
  obtain l v where lv: "lv = (l, v)" by (cases lv)
  with Cons.prems have same: "group_offset lib net link v = group_offset lib net l v"
    and rest: "\<forall>(l1, v1) \<in> set chain. group_offset lib net link v1 = group_offset lib net l1 v1"
    by simp_all
  show ?case
  proof (cases chain)
    case Nil
    with lv same show ?thesis by simp
  next
    case (Cons lv1 chain1)
    obtain l1 v1 where lv1: "lv1 = (l1, v1)" by (cases lv1)
    with lv same Cons Cons.IH [OF rest] show ?thesis
      by (simp split: prod.splits)
  qed
qed

lemma effective_radius_eq:
  "(if num_le r (Fin 0) \<or> isNaN r \<or> \<not> isFinite r then d else r) =
     (case r of Fin a \<Rightarrow> if 0 < a then Fin a else d | _ \<Rightarrow> d)"
  by (cases r) (auto simp: num_le_def isNaN_def)

lemma doLayout_on_chain:
  assumes rt: "find_root net (net_vertexes net) None = Some rt"
    and chain: "chain_from net (v_destinationEdges_first (net_vertex net rt)) chain"
  shows "\<exists>st'. doLayout lib lay net st = Some st'
       \<and> pl_center st' =
           fold (\<lambda>(v, c) f. f(v := c))
             (spiral_centers lib lay net (initialOrigin lib (sp_arrangementOrigin lay))
                (effective_radius lay net rt) (num_mul (cw_of lay) Math_PI)
                (map (\<lambda>(l1, v1).
                        (case v_destinationEdges_first (net_vertex net rt) of
                           None \<Rightarrow> None
                         | Some e \<Rightarrow> e_link (net_edge net e), v1)) chain))
             ((pl_center st)(rt := initialOrigin lib (sp_arrangementOrigin lay)))"
proof (cases chain)
  case Nil
  with chain have "(case v_destinationEdges_first (net_vertex net rt) of
                      None \<Rightarrow> None | Some e \<Rightarrow> e_toVertex (net_edge net e)) = None"
    by (auto split: option.splits)
  with rt Nil show ?thesis
    by (simp add: doLayout_def Let_def place_chain.simps split: option.splits)
next
  case (Cons lv rest)
  obtain l v where lv: "lv = (l, v)" by (cases lv)
  define link where "link = (case v_destinationEdges_first (net_vertex net rt) of
                           None \<Rightarrow> None
                         | Some e \<Rightarrow> e_link (net_edge net e))"
  define origin where "origin = initialOrigin lib (sp_arrangementOrigin lay)"
  define st2 where "st2 =
     (case link of
        None \<Rightarrow> st\<lparr>pl_center := (pl_center st)(rt := origin)\<rparr>
      | Some lk \<Rightarrow> st\<lparr>pl_center := (pl_center st)(rt := origin),
                       pl_curviness := (pl_curviness st)
                          (lk := num_mul (cw_of lay) (effective_radius lay net rt))\<rparr>)"
  from chain Cons lv obtain e where
    e: "v_destinationEdges_first (net_vertex net rt) = Some e"
       "e_toVertex (net_edge net e) = Some v"
    and rest: "chain_from net (v_destinationEdges_first (net_vertex net v)) rest"
    by (auto split: option.splits)
  from place_chain_on_chain [OF rest, of lib lay origin "effective_radius lay net rt" link
      "num_mul (cw_of lay) Math_PI" st2 l]
  obtain st' where
    run: "place_chain lib lay net origin (effective_radius lay net rt) link (Some v)
            (num_mul (cw_of lay) Math_PI) st2 = Some st'"
    and centers: "pl_center st' =
           fold (\<lambda>(v, c) f. f(v := c))
             (spiral_centers lib lay net origin (effective_radius lay net rt)
                (num_mul (cw_of lay) Math_PI) (map (\<lambda>(l1, v1). (link, v1)) ((l, v) # rest)))
             (pl_center st2)"
    by blast
  have c2: "pl_center st2 = (pl_center st)(rt := origin)"
    by (simp add: st2_def split: option.splits)
  have "doLayout lib lay net st = Some (st'\<lparr>pl_partsUpdated := Suc (pl_partsUpdated st')\<rparr>)"
    using rt e run
    by (simp add: doLayout_def Let_def effective_radius_eq effective_radius_def link_def
        origin_def st2_def split: option.splits)
  with centers c2 Cons lv show ?thesis
    by (simp add: link_def origin_def)
qed

lemma spiral_centers_two:
  "spiral_centers lib lay net origin rad angle [(l1, v1), (l2, v2)] =
     [(v1, Point (num_add (fst (involute rad angle (group_offset lib net l1 v1))) (point_x origin))
                (num_add (snd (involute rad angle (group_offset lib net l1 v1))) (point_y origin))),
      (v2, Point
             (num_add (fst (involute rad
                 (next_angle lay net v1 v2
                    (fst (involute rad angle (group_offset lib net l1 v1)))
                    (snd (involute rad angle (group_offset lib net l1 v1))) angle)
                 (group_offset lib net l2 v2))) (point_x origin))
             (num_add (snd (involute rad
                 (next_angle lay net v1 v2
                    (fst (involute rad angle (group_offset lib net l1 v1)))
                    (snd (involute rad angle (group_offset lib net l1 v1))) angle)
                 (group_offset lib net l2 v2))) (point_y origin)))]"
  by (simp add: Let_def split: prod.splits)

lemma involute_finite:
  "involute (Fin r) (Fin a) None = (Fin (r * (cos a + a * sin a)), Fin (r * (sin a - a * cos a)))"
  "involute (Fin r) (Fin a) (Some (Point (Fin dx) (Fin dy))) =
     (Fin (r * (cos a + a * sin a) - dx), Fin (r * (sin a - a * cos a) - dy))"
  by (simp_all add: involute_def Let_def num_sub_def)

lemma atan_div_finite: "a \<noteq> 0 \<Longrightarrow> isFinite (Math_atan (num_div (Fin a) (Fin q)))"
  by (cases "q = 0"; cases "0 < a") simp_all

lemma next_angle_finite:
  assumes "diameter (net_vertex net v1) = Fin d1" and "diameter (net_vertex net v2) = Fin d2"
    and "sp_spacing lay = Fin s" and "d1 / 2 + d2 / 2 + s \<noteq> 0"
  shows "isFinite (next_angle lay net v1 v2 (Fin x) (Fin y) (Fin a))"
proof -
  have "\<not> x * x + y * y < 0"
    by (simp add: not_less)
  then have root: "Math_sqrt (num_add (num_mul (Fin x) (Fin x)) (num_mul (Fin y) (Fin y)))
      = Fin (sqrt (x * x + y * y))"
    by simp
  from atan_div_finite [OF assms(4), of "sqrt (x * x + y * y)"] obtain c where
    "Math_atan (num_div (Fin (d1 / 2 + d2 / 2 + s)) (Fin (sqrt (x * x + y * y)))) = Fin c"
    by (cases "Math_atan (num_div (Fin (d1 / 2 + d2 / 2 + s)) (Fin (sqrt (x * x + y * y))))")
      simp_all
  with root show ?thesis
    using assms(1-3) by (simp add: next_angle_def cw_of_def)
qed

text \<open>
  On a chain, \<open>doLayout\<close> returns, and wherever the offset taken from the first link
  is the offset of the vertex's own link (so on every chain without a Group after its
  first vertex) the centres are those of the description: the root at the arrangement
  origin, the angle starting at \<open>cw * PI\<close>, each following vertex on the involute
  spiral of the effective radius.
\<close>

lemma doLayout_places_chain:
  assumes "find_root net (net_vertexes net) None = Some rt"
    and "chain_from net (v_destinationEdges_first (net_vertex net rt)) chain"
    and "\<forall>(l1, v1) \<in> set chain.
           group_offset lib net
             (case v_destinationEdges_first (net_vertex net rt) of
                None \<Rightarrow> None
              | Some e \<Rightarrow> e_link (net_edge net e)) v1
           = group_offset lib net l1 v1"
  shows "\<exists>st'. doLayout lib lay net st = Some st'
       \<and> pl_center st' =
           fold (\<lambda>(v, c) f. f(v := c))
             (spiral_centers lib lay net (initialOrigin lib (sp_arrangementOrigin lay))
                (effective_radius lay net rt) (num_mul (cw_of lay) Math_PI) chain)
             ((pl_center st)(rt := initialOrigin lib (sp_arrangementOrigin lay)))"
  using doLayout_on_chain [OF assms(1,2), of lib lay st] spiral_centers_cong [OF assms(3)]
  by simp

lemma sqrt_2500: "sqrt 2500 = 50"
  by (rule real_sqrt_unique) simp_all

lemma chain_net_diameter: "diameter (net_vertex chain_net v) = Fin 50"
  by (simp add: diameter_def chain_net_def sqrt_2500)

lemma chain_net_offsets:
  "group_offset plain_spiral_lib chain_net (Some 20) 1 = None"
  "group_offset plain_spiral_lib chain_net (Some 20) 2 = Some (Point (Fin 30) (Fin 40))"
  "group_offset plain_spiral_lib chain_net (Some 21) 2 = None"
  by (simp_all add: group_offset_def chain_net_def plain_spiral_lib_def num_sub_def)

lemma chain_net_chain:
  "find_root chain_net (net_vertexes chain_net) None = Some 0"
  "chain_from chain_net (v_destinationEdges_first (net_vertex chain_net 0))
     [(Some 20, 1), (Some 21, 2)]"
  "(case v_destinationEdges_first (net_vertex chain_net 0) of
      None \<Rightarrow> None | Some e \<Rightarrow> e_link (net_edge chain_net e)) = Some 20"
  "initialOrigin plain_spiral_lib (sp_arrangementOrigin default_spiral) = Point (Fin 0) (Fin 0)"
  by (simp_all add: chain_net_def default_spiral_def plain_spiral_lib_def)

lemma chain_net_radius: "effective_radius default_spiral chain_net 0 = Fin (25 / 2)"
  by (simp add: effective_radius_def default_spiral_def chain_net_diameter)

text \<open>
  Claim C1, where the code departs from it. In the chain root, node, Group the link into
  the Group ends at the Group itself, so the Group is to be placed on the spiral without
  offset. \<open>doLayout\<close> returns, and has placed the Group 30 to the left of and 40 above
  that point: it has taken the offset from the first link of the chain, which ends at the
  node before the Group, 30 and 40 away from the Group's location.
\<close>

theorem doLayout_offset_from_first_link:
  "\<exists>st' c. doLayout plain_spiral_lib default_spiral chain_net blank_placement = Some st'
     \<and> group_offset plain_spiral_lib chain_net (Some 21) 2 = None
     \<and> map_of (spiral_centers plain_spiral_lib default_spiral chain_net (Point (Fin 0) (Fin 0))
                 (Fin (25 / 2)) Math_PI [(Some 20, 1), (Some 21, 2)]) 2 = Some c
     \<and> pl_center st' 2 = Point (num_sub (point_x c) (Fin 30)) (num_sub (point_y c) (Fin 40))
     \<and> pl_center st' 2 \<noteq> c"
proof -
  let ?rad = "Fin (25 / 2)"
  let ?x1 = "Fin (- (25 / 2))"
  let ?y1 = "Fin (25 * pi / 2)"
  from doLayout_on_chain [OF chain_net_chain(1,2), of plain_spiral_lib default_spiral blank_placement]
  obtain st' where run: "doLayout plain_spiral_lib default_spiral chain_net blank_placement = Some st'"
    and centers: "pl_center st' =
        fold (\<lambda>(v, c) f. f(v := c))
          (spiral_centers plain_spiral_lib default_spiral chain_net (Point (Fin 0) (Fin 0)) ?rad
             (num_mul (cw_of default_spiral) Math_PI) [(Some 20, 1), (Some 20, 2)])
          ((pl_center blank_placement)(0 := Point (Fin 0) (Fin 0)))"
    by (auto simp: chain_net_chain chain_net_radius)
  have start: "num_mul (cw_of default_spiral) Math_PI = Fin pi" "Math_PI = Fin pi"
    by (simp_all add: cw_of_def default_spiral_def Math_PI_def)
  have spacing: "sp_spacing default_spiral = Fin 10"
    by (simp add: default_spiral_def)
  have "isFinite (next_angle default_spiral chain_net (Suc 0) 2 ?x1 ?y1 (Fin pi))"
    by (rule next_angle_finite [OF chain_net_diameter chain_net_diameter spacing]) simp
  then obtain b where
    b: "next_angle default_spiral chain_net (Suc 0) 2 ?x1 ?y1 (Fin pi) = Fin b"
    by (cases "next_angle default_spiral chain_net (Suc 0) 2 ?x1 ?y1 (Fin pi)") simp_all
  define X where "X = 25 / 2 * (cos b + b * sin b)"
  define Y where "Y = 25 / 2 * (sin b - b * cos b)"
  have described: "spiral_centers plain_spiral_lib default_spiral chain_net (Point (Fin 0) (Fin 0))
      ?rad (Fin pi) [(Some 20, 1), (Some 21, 2)] = [(1, Point ?x1 ?y1), (2, Point (Fin X) (Fin Y))]"
    unfolding spiral_centers_two chain_net_offsets involute_finite
    by (simp add: b involute_finite X_def Y_def)
  have coded: "spiral_centers plain_spiral_lib default_spiral chain_net (Point (Fin 0) (Fin 0))
      ?rad (Fin pi) [(Some 20, 1), (Some 20, 2)]
        = [(1, Point ?x1 ?y1), (2, Point (Fin (X - 30)) (Fin (Y - 40)))]"
    unfolding spiral_centers_two chain_net_offsets involute_finite
    by (simp add: b involute_finite X_def Y_def)
  have placed: "pl_center st' 2 = Point (Fin (X - 30)) (Fin (Y - 40))"
    unfolding centers start(1) coded by simp
  have "map_of (spiral_centers plain_spiral_lib default_spiral chain_net (Point (Fin 0) (Fin 0))
                 ?rad Math_PI [(Some 20, 1), (Some 21, 2)]) 2 = Some (Point (Fin X) (Fin Y))"
    unfolding start(2) described by simp
  moreover have "pl_center st' 2 =
      Point (num_sub (point_x (Point (Fin X) (Fin Y))) (Fin 30))
            (num_sub (point_y (Point (Fin X) (Fin Y))) (Fin 40))"
    by (simp add: placed num_sub_def)
  moreover have "pl_center st' 2 \<noteq> Point (Fin X) (Fin Y)"
    by (simp add: placed)
  ultimately show ?thesis
    using run chain_net_offsets(3) by blast
qed

end
